theory Spec2Isabelle
  imports Main
begin

section \<open>JavaScript values and helpers\<close>

text \<open>
  The customer page is browser JavaScript. Three scripts of the repository define the
  same page functions: the base script (lines 1-1184 of
  \<^verbatim>\<open>web/static/customer_support.js\<close>), the extended script with the promise ledger
  and the fixed fallback messages (lines 1185-2636) and an early variant (lines 2637-3557).
  Unless a name ends in \<open>_base\<close>, a definition below embeds the extended script.

  Strings are byte lists. \<open>a || b\<close> on a value that is a string or absent takes \<open>b\<close>
  when the value is absent or empty.
\<close>

definition js_or :: "string option \<Rightarrow> string \<Rightarrow> string" where
  "js_or v d = (case v of None \<Rightarrow> d | Some s \<Rightarrow> if s = [] then d else s)"

text \<open>
  \<open>String.prototype.toLowerCase\<close> on the ASCII letters; other bytes are kept. The
  results are only compared with the status names \<open>active\<close>, \<open>review\<close>, \<open>done\<close>,
  \<open>overdue\<close>, \<open>constructor\<close> and \<open>__proto__\<close>, and no character outside ASCII has a
  lower-case form made of their letters.
\<close>

definition lower_char :: "char \<Rightarrow> char" where
  "lower_char c =
     (let n = of_char c :: nat in if 65 \<le> n \<and> n \<le> 90 then char_of (n + 32) else c)"

definition toLowerCase :: "string \<Rightarrow> string" where
  "toLowerCase s = map lower_char s"

text \<open>
  \<open>String.prototype.trim\<close>. Strings are UTF-8 byte lists, so the characters it strips
  are byte sequences: the white space of the language (tab, vertical tab, form feed,
  space, U+00A0, U+FEFF and the other space separators U+1680, U+2000 to U+200A, U+202F,
  U+205F, U+3000) and its line terminators (line feed, carriage return, U+2028, U+2029).
\<close>

definition white_space :: "nat list list" where
  "white_space =
     [[0x09], [0x0A], [0x0B], [0x0C], [0x0D], [0x20],
      [0xC2, 0xA0],
      [0xE1, 0x9A, 0x80],
      [0xE2, 0x80, 0x80], [0xE2, 0x80, 0x81], [0xE2, 0x80, 0x82], [0xE2, 0x80, 0x83],
      [0xE2, 0x80, 0x84], [0xE2, 0x80, 0x85], [0xE2, 0x80, 0x86], [0xE2, 0x80, 0x87],
      [0xE2, 0x80, 0x88], [0xE2, 0x80, 0x89], [0xE2, 0x80, 0x8A],
      [0xE2, 0x80, 0xA8], [0xE2, 0x80, 0xA9], [0xE2, 0x80, 0xAF],
      [0xE2, 0x81, 0x9F],
      [0xE3, 0x80, 0x80],
      [0xEF, 0xBB, 0xBF]]"

text \<open>The number of bytes of the stripped character that \<open>s\<close> starts with, or 0.\<close>

definition space_width :: "nat list list \<Rightarrow> string \<Rightarrow> nat" where
  "space_width ws s =
     (case filter (\<lambda>w. take (length w) (map of_char s) = w) ws of
        [] \<Rightarrow> 0
      | w # rest \<Rightarrow> length w)"

function strip :: "nat list list \<Rightarrow> string \<Rightarrow> string" where
  "strip ws s =
     (if space_width ws s = 0 \<or> s = [] then s else strip ws (drop (space_width ws s) s))"
  by pat_completeness auto
termination
  by (relation "measure (\<lambda>(ws, s). length s)") auto

declare strip.simps [simp del]

text \<open>
  Leading characters are stripped by their bytes; trailing ones by their bytes read
  backwards on the reversed string.
\<close>

definition trim :: "string \<Rightarrow> string" where
  "trim s = rev (strip (map rev white_space) (rev (strip white_space s)))"

text \<open>\<open>s.slice(2, 10)\<close>: the characters at positions 2 to 9, as far as there are any.\<close>

definition slice_2_10 :: "string \<Rightarrow> string" where
  "slice_2_10 s = take 8 (drop 2 s)"

text \<open>A non-negative integer inside a template literal prints in decimal.\<close>

definition digit :: "nat \<Rightarrow> char" where
  "digit d = char_of (48 + d)"

fun decimal :: "nat \<Rightarrow> string" where
  "decimal n = (if n < 10 then [digit n] else decimal (n div 10) @ [digit (n mod 10)])"

declare decimal.simps [simp del]

definition is_digit :: "char \<Rightarrow> bool" where
  "is_digit c = (let n = of_char c :: nat in 48 \<le> n \<and> n \<le> 57)"

text \<open>
  A parsed JSON value. A number is kept as the text JavaScript prints for it (\<open>"0"\<close>
  for zero), which is all the scripts do with the numbers of a response body. An object
  lists each key once. \<open>None\<close> of type \<open>json option\<close> stands for \<open>undefined\<close>.
\<close>

datatype json =
    JNull
  | JBool bool
  | JNum string
  | JStr string
  | JArr "json list"
  | JObj "(string \<times> json) list"

text \<open>
  Reading the property \<open>k\<close> of a value that is not null: only an object of the response
  has the named properties the scripts read.
\<close>

fun get_prop :: "json \<Rightarrow> string \<Rightarrow> json option" where
  "get_prop (JObj kvs) k = map_of kvs k"
| "get_prop v k = None"

fun truthy :: "json option \<Rightarrow> bool" where
  "truthy None = False"
| "truthy (Some JNull) = False"
| "truthy (Some (JBool b)) = b"
| "truthy (Some (JNum n)) = (n \<noteq> ''0'')"
| "truthy (Some (JStr s)) = (s \<noteq> [])"
| "truthy (Some (JArr xs)) = True"
| "truthy (Some (JObj kvs)) = True"

text \<open>\<open>typeof v === "object"\<close> for a value that is also truthy.\<close>

fun is_object :: "json \<Rightarrow> bool" where
  "is_object (JObj kvs) = True"
| "is_object (JArr xs) = True"
| "is_object v = False"

text \<open>\<open>String(v)\<close>, which is also how a template literal and \<open>textContent\<close> print \<open>v\<close>.\<close>

fun join_comma :: "string list \<Rightarrow> string" where
  "join_comma [] = []"
| "join_comma [s] = s"
| "join_comma (s # t # ss) = s @ '','' @ join_comma (t # ss)"

fun js_String :: "json \<Rightarrow> string" where
  "js_String JNull = ''null''"
| "js_String (JBool b) = (if b then ''true'' else ''false'')"
| "js_String (JNum n) = n"
| "js_String (JStr s) = s"
| "js_String (JArr xs) =
     join_comma (map (\<lambda>x. if x = JNull then [] else js_String x) xs)"
| "js_String (JObj kvs) = ''[object Object]''"

text \<open>\<open>a || b || d\<close> over properties of a response, printed as text.\<close>

fun first_truthy :: "json option list \<Rightarrow> string \<Rightarrow> string" where
  "first_truthy [] d = d"
| "first_truthy (v # vs) d =
     (case v of
        Some j \<Rightarrow> if truthy (Some j) then js_String j else first_truthy vs d
      | None \<Rightarrow> first_truthy vs d)"

text \<open>
  An exception value: every value the modelled code catches is an \<open>Error\<close> object with
  a name and a message. \<open>String(err)\<close> is \<open>Error.prototype.toString\<close>.
\<close>

record js_error =
  err_name :: string
  err_message :: string

definition new_Error :: "string \<Rightarrow> js_error" where
  "new_Error msg = \<lparr> err_name = ''Error'', err_message = msg \<rparr>"

definition String_of_error :: "js_error \<Rightarrow> string" where
  "String_of_error e =
     (if err_name e = [] then err_message e
      else if err_message e = [] then err_name e
      else err_name e @ '': '' @ err_message e)"

text \<open>
  \<open>JSON.stringify(v, null, 2)\<close>. \<open>quote\<close> escapes the quotation mark, the backslash and
  the control characters.
\<close>

definition hex_digit :: "nat \<Rightarrow> char" where
  "hex_digit d = (if d < 10 then char_of (48 + d) else char_of (87 + d))"

definition escape_char :: "char \<Rightarrow> string" where
  "escape_char c =
     (let n = of_char c :: nat in
      if n = 34 then [CHR 0x5C, CHR 0x22]
      else if n = 92 then [CHR 0x5C, CHR 0x5C]
      else if n = 8 then [CHR 0x5C, CHR ''b'']
      else if n = 9 then [CHR 0x5C, CHR ''t'']
      else if n = 10 then [CHR 0x5C, CHR ''n'']
      else if n = 12 then [CHR 0x5C, CHR ''f'']
      else if n = 13 then [CHR 0x5C, CHR ''r'']
      else if n < 32 then [CHR 0x5C, CHR ''u'', CHR ''0'', CHR ''0'',
                           hex_digit (n div 16), hex_digit (n mod 16)]
      else [c])"

definition quote :: "string \<Rightarrow> string" where
  "quote s = [CHR 0x22] @ concat (map escape_char s) @ [CHR 0x22]"

fun join_lines :: "string \<Rightarrow> string list \<Rightarrow> string" where
  "join_lines sep [] = []"
| "join_lines sep [s] = s"
| "join_lines sep (s # t # ss) = s @ sep @ join_lines sep (t # ss)"

fun stringify :: "nat \<Rightarrow> json \<Rightarrow> string" where
  "stringify ind JNull = ''null''"
| "stringify ind (JBool b) = (if b then ''true'' else ''false'')"
| "stringify ind (JNum n) = n"
| "stringify ind (JStr s) = quote s"
| "stringify ind (JArr xs) =
     (if xs = [] then ''[]''
      else ''['' @ [CHR 0x0A] @ replicate (ind + 2) CHR '' ''
           @ join_lines ('','' @ [CHR 0x0A] @ replicate (ind + 2) CHR '' '')
               (map (stringify (ind + 2)) xs)
           @ [CHR 0x0A] @ replicate ind CHR '' '' @ '']'')"
| "stringify ind (JObj kvs) =
     (if kvs = [] then ''{}''
      else ''{'' @ [CHR 0x0A] @ replicate (ind + 2) CHR '' ''
           @ join_lines ('','' @ [CHR 0x0A] @ replicate (ind + 2) CHR '' '')
               (map (\<lambda>kv. quote (fst kv) @ '': '' @ stringify (ind + 2) (snd kv)) kvs)
           @ [CHR 0x0A] @ replicate ind CHR '' '' @ ''}'')"

definition JSON_stringify :: "json \<Rightarrow> string" where
  "JSON_stringify v = stringify 0 v"

section \<open>Promise ledger panel\<close>

text \<open>
  A commitment as the page receives it in \<open>promise_ledger\<close> / \<open>commitments\<close>. A field
  is \<open>None\<close> when the property is missing or null. \<open>due_at\<close> holds the epoch
  milliseconds of \<open>new Date(item.due_at).getTime()\<close>; it is \<open>None\<close> when
  \<open>item.due_at\<close> is falsy or does not parse to a valid date (\<open>NaN\<close>).
\<close>

record commitment =
  title :: "string option"
  status :: "string option"
  summary :: "string option"
  due_at :: "int option"

text \<open>
  \<open>Math.round(Math.abs(ms) / (1000 * 60 * 60))\<close>: rounding to the nearest hour, halves
  upwards. The script divides in double precision; the model divides exactly, which is
  the same number for every span of time between two dates a page meets.
\<close>

definition absHours :: "int \<Rightarrow> nat" where
  "absHours ms = nat ((\<bar>ms\<bar> + 1800000) div 3600000)"

text \<open>
  \<open>formatPromiseDue(item)\<close>; \<open>now\<close> is \<open>new Date().getTime()\<close>. An item that is
  null is \<open>None\<close>.
\<close>

definition formatPromiseDue :: "int \<Rightarrow> commitment option \<Rightarrow> string" where
  "formatPromiseDue now item =
     (case item of
        None \<Rightarrow> []
      | Some it \<Rightarrow>
          (case due_at it of
             None \<Rightarrow> []
           | Some dueAt \<Rightarrow>
               (let ms = dueAt - now; h = absHours ms in
                if toLowerCase (js_or (status it) []) = ''overdue'' then
                  (if h \<le> 1 then ''Follow-up may be overdue (about an hour).''
                   else ''Follow-up may be overdue ('' @ decimal h @ ''h).'')
                else if ms \<le> 0 then ''Follow-up window reached.''
                else if h < 1 then ''Follow-up window later today.''
                else ''Follow-up window in ~'' @ decimal h @ ''h.'')))"

text \<open>
  The text of the status badge: the lookup in the literal
  \<open>{active: "Active", review: "Review", done: "Done"}\<close>, with \<open>"Active"\<close> for a key
  the lookup does not find. The two all-lower-case names every object inherits are found
  by the lookup and print as the browser renders that inherited member.
\<close>

datatype badge_text = Label string | InheritedMember string

definition status_badge :: "string \<Rightarrow> badge_text" where
  "status_badge statusValue =
     (if statusValue = ''active'' then Label ''Active''
      else if statusValue = ''review'' then Label ''Review''
      else if statusValue = ''done'' then Label ''Done''
      else if statusValue = ''constructor'' \<or> statusValue = ''__proto__''
        then InheritedMember statusValue
      else Label ''Active'')"

record promise_card =
  card_title :: string
  card_status_class :: string
  card_status_text :: badge_text
  card_summary :: string
  card_meta :: "string option"

datatype panel_child = EmptyNote | Card promise_card

definition render_card :: "int \<Rightarrow> commitment \<Rightarrow> promise_card" where
  "render_card now it =
     (let statusValue = toLowerCase (js_or (status it) ''active'');
          due = formatPromiseDue now (Some it)
      in \<lparr> card_title = js_or (title it) ''Support commitment'',
           card_status_class = ''promise-status '' @ statusValue,
           card_status_text = status_badge statusValue,
           card_summary = js_or (summary it) [],
           card_meta = (if due = [] then None else Some due) \<rparr>)"

text \<open>
  The \<open>forEach\<close> loop of \<open>renderPromiseLedger\<close>. Reading \<open>item.title\<close> of a null
  entry raises a TypeError: the loop stops there, the cards appended so far stay, and the
  flag of the result is set.
\<close>

fun render_items :: "int \<Rightarrow> commitment option list \<Rightarrow> panel_child list \<times> bool" where
  "render_items now [] = ([], False)"
| "render_items now (None # rest) = ([], True)"
| "render_items now (Some it # rest) =
     (case render_items now rest of (cs, raised) \<Rightarrow> (Card (render_card now it) # cs, raised))"

text \<open>
  \<open>renderPromiseLedger(items, effort)\<close> as a function of the children of
  \<open>els.promiseList\<close> (\<open>None\<close> when the page has no such element); \<open>items\<close> is
  \<open>None\<close> when the argument is not an array. The effort badge is a separate element set
  by \<open>applyEffortBadge\<close> and is not part of the panel.
\<close>

definition renderPromiseLedger ::
  "panel_child list option \<Rightarrow> commitment option list option \<Rightarrow> int
     \<Rightarrow> panel_child list option \<times> bool" where
  "renderPromiseLedger promiseList items now =
     (case promiseList of
        None \<Rightarrow> (None, False)
      | Some old \<Rightarrow>
          (let list = (case items of None \<Rightarrow> [] | Some xs \<Rightarrow> xs) in
           if list = [] then (Some [EmptyNote], False)
           else (case render_items now (take 6 list) of
                   (cs, raised) \<Rightarrow> (Some cs, raised))))"

fun is_card :: "panel_child \<Rightarrow> bool" where
  "is_card (Card c) = True"
| "is_card EmptyNote = False"

definition cards_shown :: "panel_child list option \<Rightarrow> nat" where
  "cards_shown p = (case p of None \<Rightarrow> 0 | Some cs \<Rightarrow> length (filter is_card cs))"

text \<open>
  The words a card can show for a commitment are its badge text and its due line. The
  due line says overdue when it is one of the two \<open>Follow-up may be overdue\<close> texts.
\<close>

definition says_overdue :: "string \<Rightarrow> bool" where
  "says_overdue s = (take 24 s = ''Follow-up may be overdue'')"

definition shows_overdue_line :: "promise_card \<Rightarrow> bool" where
  "shows_overdue_line c = (case card_meta c of None \<Rightarrow> False | Some m \<Rightarrow> says_overdue m)"

text \<open>The badge texts the lookup of \<open>status_badge\<close> can give.\<close>

definition badge_texts :: "badge_text list" where
  "badge_texts =
     [Label ''Active'', Label ''Review'', Label ''Done'',
      InheritedMember ''constructor'', InheritedMember ''__proto__'']"

text \<open>
  A commitment that is still active and was due at 2023-11-14T22:13:20Z; the examples
  read it two hours later, at 1700007200000 ms.
\<close>

definition late_commitment :: commitment where
  "late_commitment =
     \<lparr> title = Some ''Check refund eligibility'',
       status = Some ''active'',
       summary = Some ''I will check whether this booking can be refunded.'',
       due_at = Some 1700000000000 \<rparr>"

section \<open>The customer page: state and display helpers\<close>

datatype ui_mode = TextMode | VoiceMode

fun mode_name :: "ui_mode \<Rightarrow> string" where
  "mode_name TextMode = ''text''"
| "mode_name VoiceMode = ''voice''"

datatype role = User | Agent

text \<open>
  The children of \<open>els.transcript\<close>, in order. A message keeps its text; the chips and
  links that \<open>appendMessage\<close> derives from the payload are not kept.
\<close>

datatype entry = Message role string | SystemNote string | TypingNote

text \<open>A \<open>fetch\<close> call: the URL and the fields of its JSON body or query string.\<close>

datatype request = Request string "(string \<times> string) list"

text \<open>
  What a \<open>fetch\<close> settles to: the promise rejects, or a response arrives with its HTTP
  status and the result of reading its body with \<open>resp.json()\<close>.
\<close>

datatype fetch_outcome = Rejected js_error | Responded nat "js_error + json"

definition http_ok :: "nat \<Rightarrow> bool" where
  "http_ok code = (200 \<le> code \<and> code \<le> 299)"

text \<open>A call of \<open>sendCustomerMessage\<close> that is suspended at one of its two awaits.\<close>

datatype turn_phase = AwaitingReply | Speaking

text \<open>
  The fields of \<open>state\<close> and of the page elements that the modelled functions read or
  write. \<open>requests\<close> lists the \<open>fetch\<close> calls made so far and \<open>turns\<close> the suspended
  calls of \<open>sendCustomerMessage\<close>; the script has no such fields, its state is the rest.
  The typing indicator is the entry \<open>TypingNote\<close> of the transcript.
\<close>

record page_state =
  mode :: ui_mode
  tenant :: string
  sessionId :: string
  customerId :: string
  sending :: bool
  lastResponse :: json
  promiseLedger :: json
  customerEffort :: json
  brand_name :: string
  callCenterPhone :: "string option"
  tracker_error_text :: "string option"
  reset_greeting :: "string option"
  voiceRetries :: nat
  voiceBackend_stt :: string
  voiceBackend_tts :: string
  synthEnabled :: bool
  lastHealth :: json
  lastCapabilities :: json
  lastAlerts :: json
  transcript :: "entry list"
  statusLine :: string
  sendBtn_disabled :: bool
  input_value :: string
  voiceHint :: string
  requests :: "request list"
  turns :: "turn_phase list"

text \<open>
  What the browser decides: which voice interfaces exist, and the TypeError it raises
  when a property of \<open>null\<close> is read.
\<close>

record browser =
  mediaRecorder :: bool
  speechRecognition :: bool
  null_read_error :: js_error

definition newSessionId :: "string \<Rightarrow> string" where
  \<comment> \<open>\<open>random36\<close> is the text of \<open>Math.random().toString(36)\<close>, such as \<open>0.i\<close> for 0.5\<close>
  "newSessionId random36 = ''sess-'' @ slice_2_10 random36"

definition setStatus :: "page_state \<Rightarrow> string \<Rightarrow> page_state" where
  "setStatus st text = st\<lparr>statusLine := js_or (Some text) ''Connected.''\<rparr>"

definition addSystemNote :: "page_state \<Rightarrow> string \<Rightarrow> page_state" where
  "addSystemNote st text = st\<lparr>transcript := transcript st @ [SystemNote text]\<rparr>"

definition removeTypingIndicator :: "page_state \<Rightarrow> page_state" where
  "removeTypingIndicator st = st\<lparr>transcript := filter (\<lambda>e. e \<noteq> TypingNote) (transcript st)\<rparr>"

definition addTypingIndicator :: "page_state \<Rightarrow> page_state" where
  "addTypingIndicator st =
     (let s = removeTypingIndicator st in s\<lparr>transcript := transcript s @ [TypingNote]\<rparr>)"

definition appendMessage :: "page_state \<Rightarrow> role \<Rightarrow> string \<Rightarrow> page_state" where
  "appendMessage st r text = st\<lparr>transcript := transcript st @ [Message r text]\<rparr>"

definition userFacingErrorMessage :: "page_state \<Rightarrow> string \<Rightarrow> string" where
  "userFacingErrorMessage st context =
     (let brand = js_or (Some (brand_name st)) ''support'';
          urgentLine =
            (case callCenterPhone st of
               None \<Rightarrow> []
             | Some phone \<Rightarrow>
                 if phone = [] then []
                 else '' If this is urgent, you can call '' @ brand @ '' at '' @ phone
                      @ '' (wait times may vary).'')
      in if context = ''send'' then
           ''I couldn't process that request right now. Please try again in a moment.''
             @ urgentLine
         else if context = ''summary'' then
           ''I couldn't prepare a summary right now. Please try again in a moment.''
         else if context = ''upload'' then
           ''I couldn't analyze that upload right now. You can still type the key details.''
         else if context = ''voice_transcription'' then
           ''I couldn't transcribe that audio clearly. Please try again, or type your question.''
         else if context = ''voice_input'' then
           ''Voice input is not available right now. You can type your question instead.''
         else if context = ''tracker'' then
           js_or (tracker_error_text st)
             ''I couldn't load your updates right now. Try Refresh.''
         else ''Something went wrong. Please try again.'')"

text \<open>Every message \<open>userFacingErrorMessage\<close> can return in the state \<open>st\<close>.\<close>

definition fallback_messages :: "page_state \<Rightarrow> string list" where
  "fallback_messages st =
     map (userFacingErrorMessage st)
       [''send'', ''summary'', ''upload'', ''voice_transcription'', ''voice_input'',
        ''tracker'', ''default'']"

section \<open>Sending a customer message\<close>

definition message_request :: "page_state \<Rightarrow> string \<Rightarrow> string option \<Rightarrow> request" where
  "message_request st content channelOverride =
     Request
       (if mode st = VoiceMode then ''/api/v1/customer/voice/simulate''
        else ''/api/v1/customer/message'')
       [(''session_id'', sessionId st),
        (''customer_id'', customerId st),
        (''channel'',
           js_or channelOverride (if mode st = VoiceMode then ''voice'' else ''web'')),
        (''content'', content),
        (''tenant'', tenant st),
        (''metadata.ui_mode'', mode_name (mode st))]"

text \<open>
  \<open>sendCustomerMessage(text, channelOverride)\<close> up to the \<open>fetch\<close> inside
  \<open>callCustomerMessageAPI\<close>. \<open>text\<close> is \<open>None\<close> when the argument is missing or null;
  then the content is read from the input box.
\<close>

definition sendCustomerMessage :: "page_state \<Rightarrow> string option \<Rightarrow> string option \<Rightarrow> page_state" where
  "sendCustomerMessage st text channelOverride =
     (let content = trim (case text of None \<Rightarrow> input_value st | Some t \<Rightarrow> t) in
      if content = [] \<or> sending st then st
      else
        (let st1 = appendMessage st User content;
             st2 = (if text = None then st1\<lparr>input_value := []\<rparr> else st1);
             st3 = addTypingIndicator (removeTypingIndicator st2);
             st4 = setStatus (st3\<lparr>sending := True, sendBtn_disabled := True\<rparr>) ''Sending...''
         in st4\<lparr>requests := requests st4 @ [message_request st4 content channelOverride],
                turns := turns st4 @ [AwaitingReply]\<rparr>))"

text \<open>
  The rest of \<open>callCustomerMessageAPI\<close>, once the \<open>fetch\<close> has settled: the value it
  returns (\<open>Inr\<close>) or the exception it throws (\<open>Inl\<close>).
\<close>

definition server_message :: "js_error + json \<Rightarrow> string option" where
  "server_message body =
     (case body of
        Inl e \<Rightarrow> None
      | Inr maybe \<Rightarrow>
          if truthy (Some maybe) then
            (case get_prop maybe ''message'' of
               Some (JStr m) \<Rightarrow> if trim m = [] then None else Some (trim m)
             | _ \<Rightarrow> None)
          else None)"

definition callCustomerMessageAPI :: "page_state \<Rightarrow> fetch_outcome \<Rightarrow> js_error + json" where
  "callCustomerMessageAPI st outcome =
     (case outcome of
        Rejected e \<Rightarrow> Inl e
      | Responded code body \<Rightarrow>
          if \<not> http_ok code then
            Inl (new_Error
                   (case server_message body of
                      Some m \<Rightarrow> m
                    | None \<Rightarrow> userFacingErrorMessage st ''send''))
          else body)"

text \<open>The \<open>finally\<close> block of the suspended call number \<open>i\<close>, which ends the call.\<close>

definition send_finally :: "nat \<Rightarrow> page_state \<Rightarrow> page_state" where
  "send_finally i st =
     st\<lparr>sending := False, sendBtn_disabled := False,
        turns := take i (turns st) @ drop (Suc i) (turns st)\<rparr>"

text \<open>The \<open>catch\<close> block of \<open>sendCustomerMessage\<close>.\<close>

definition send_catch :: "page_state \<Rightarrow> js_error \<Rightarrow> page_state" where
  "send_catch st err =
     setStatus
       (appendMessage (removeTypingIndicator st) Agent
          (js_or (Some (err_message err)) (userFacingErrorMessage st ''send'')))
       ''Unable to send right now.''"

text \<open>
  \<open>speak(text)\<close> up to its request: nothing happens for a blank text; otherwise the
  speech request is sent and the caller stays suspended.
\<close>

definition speak_request :: "page_state \<Rightarrow> string \<Rightarrow> request option" where
  "speak_request st text =
     (let clean = trim text in
      if clean = [] then None
      else Some (Request ''/api/v1/customer/voice/speak''
                   [(''text'', clean), (''voice_mode'', ''support''), (''tenant'', tenant st)]))"

text \<open>
  The call number \<open>i\<close> of \<open>sendCustomerMessage\<close> resumes when its request has settled
  with \<open>outcome\<close>. \<open>fault\<close> is the exception, if any, that one of the panel helpers
  (\<open>renderCustomerPlan\<close>, \<open>renderPromiseLedger\<close>, \<open>renderResolutionArtifacts\<close>) raises
  on the data; the panels themselves are not part of the state. The three \<open>refresh\<close>
  calls only start background reads for the side panels and are left out.
  When no call number \<open>i\<close> waits for a reply, nothing happens.
\<close>

definition send_reply ::
  "browser \<Rightarrow> page_state \<Rightarrow> nat \<Rightarrow> fetch_outcome \<Rightarrow> js_error option \<Rightarrow> page_state" where
  "send_reply b st i outcome fault =
     (if \<not> (i < length (turns st) \<and> turns st ! i = AwaitingReply) then st
      else
        (case callCustomerMessageAPI st outcome of
           Inl err \<Rightarrow> send_finally i (send_catch st err)
         | Inr data \<Rightarrow>
             (let st1 = st\<lparr>lastResponse := data\<rparr> in
              if data = JNull then send_finally i (send_catch st1 (null_read_error b))
              else
                (let st2 = st1\<lparr>promiseLedger :=
                                (case get_prop data ''promise_ledger'' of
                                   Some (JArr xs) \<Rightarrow> JArr xs
                                 | _ \<Rightarrow> promiseLedger st1),
                              customerEffort :=
                                (case get_prop data ''customer_effort'' of
                                   Some v \<Rightarrow> if truthy (Some v) then v else customerEffort st1
                                 | None \<Rightarrow> customerEffort st1)\<rparr>;
                     st3 = appendMessage (removeTypingIndicator st2) Agent
                             (first_truthy [get_prop data ''message'', get_prop data ''response_text'']
                                ''I can help with that.'')
                 in case fault of
                      Some err \<Rightarrow> send_finally i (send_catch st3 err)
                    | None \<Rightarrow>
                        (let summary_saved =
                               (truthy (case get_prop data ''follow_up_summary'' of
                                          Some f \<Rightarrow> if f = JNull then None else get_prop f ''summary''
                                        | None \<Rightarrow> None)
                                \<and> truthy (get_prop data ''support_reference''));
                             st4 = (if summary_saved
                                    then addSystemNote st3 ''Summary and next steps are saved for this request.''
                                    else st3);
                             st5 = setStatus st4 ''Connected.''
                         in if mode st5 = VoiceMode then
                              (let spoken = first_truthy
                                              [get_prop data ''spoken_message'', get_prop data ''message'',
                                               get_prop data ''response_text''] [];
                                   st6 = st5\<lparr>voiceRetries := 0\<rparr>
                               in case speak_request st6 spoken of
                                    None \<Rightarrow> send_finally i st6
                                  | Some r \<Rightarrow> st6\<lparr>requests := requests st6 @ [r],
                                                     turns := (turns st6)[i := Speaking]\<rparr>)
                            else send_finally i st5)))))"

text \<open>
  The call number \<open>i\<close> resumes when \<open>speak\<close> has returned; \<open>speak\<close> catches its own
  errors. \<open>tts\<close> is the speech backend \<open>speak\<close> recorded, if it recorded one.
\<close>

definition send_spoken :: "page_state \<Rightarrow> nat \<Rightarrow> string option \<Rightarrow> page_state" where
  "send_spoken st i tts =
     (if \<not> (i < length (turns st) \<and> turns st ! i = Speaking) then st
      else send_finally i
             (case tts of None \<Rightarrow> st | Some t \<Rightarrow> st\<lparr>voiceBackend_tts := t\<rparr>))"

text \<open>
  What can happen on the page, as far as sending goes: the customer submits a turn (send
  button, Enter key, quick action, voice transcript), the message request of a suspended
  call settles, or its speech playback returns.
\<close>

datatype event =
    Send "string option" "string option"
  | Reply nat fetch_outcome "js_error option"
  | Spoken nat "string option"

fun step :: "browser \<Rightarrow> page_state \<Rightarrow> event \<Rightarrow> page_state" where
  "step b st (Send text channelOverride) = sendCustomerMessage st text channelOverride"
| "step b st (Reply i outcome fault) = send_reply b st i outcome fault"
| "step b st (Spoken i tts) = send_spoken st i tts"

definition run :: "browser \<Rightarrow> page_state \<Rightarrow> event list \<Rightarrow> page_state" where
  "run b st evs = foldl (step b) st evs"

text \<open>The message requests among the requests made.\<close>

fun is_message_request :: "request \<Rightarrow> bool" where
  "is_message_request (Request url body) =
     (url = ''/api/v1/customer/message'' \<or> url = ''/api/v1/customer/voice/simulate'')"

text \<open>The script's flag agrees with the suspended calls, of which there is at most one.\<close>

definition consistent :: "page_state \<Rightarrow> bool" where
  "consistent st = (length (turns st) \<le> 1 \<and> sending st = (turns st \<noteq> []))"

subsection \<open>The base script\<close>

text \<open>
  In the base script a response that is not OK raises \<open>Request failed (status)\<close> and the
  \<open>catch\<close> block prints the exception after a fixed apology.
\<close>

definition callCustomerMessageAPI_base :: "fetch_outcome \<Rightarrow> js_error + json" where
  "callCustomerMessageAPI_base outcome =
     (case outcome of
        Rejected e \<Rightarrow> Inl e
      | Responded code body \<Rightarrow>
          if \<not> http_ok code
          then Inl (new_Error (''Request failed ('' @ decimal code @ '')''))
          else body)"

definition send_catch_base :: "page_state \<Rightarrow> js_error \<Rightarrow> page_state" where
  "send_catch_base st err =
     setStatus
       (appendMessage (removeTypingIndicator st) Agent
          (''Sorry, I ran into a problem while sending your request. '' @ String_of_error err))
       ''Unable to send right now.''"

definition send_reply_base ::
  "browser \<Rightarrow> page_state \<Rightarrow> nat \<Rightarrow> fetch_outcome \<Rightarrow> js_error option \<Rightarrow> page_state" where
  "send_reply_base b st i outcome fault =
     (if \<not> (i < length (turns st) \<and> turns st ! i = AwaitingReply) then st
      else
        (case callCustomerMessageAPI_base outcome of
           Inl err \<Rightarrow> send_finally i (send_catch_base st err)
         | Inr data \<Rightarrow>
             (let st1 = removeTypingIndicator (st\<lparr>lastResponse := data\<rparr>) in
              if data = JNull then send_finally i (send_catch_base st1 (null_read_error b))
              else
                (let st3 = appendMessage st1 Agent
                             (first_truthy [get_prop data ''message'', get_prop data ''response_text'']
                                ''I can help with that.'')
                 in case fault of
                      Some err \<Rightarrow> send_finally i (send_catch_base st3 err)
                    | None \<Rightarrow>
                        (let summary_saved =
                               (truthy (case get_prop data ''follow_up_summary'' of
                                          Some f \<Rightarrow> if f = JNull then None else get_prop f ''summary''
                                        | None \<Rightarrow> None)
                                \<and> truthy (get_prop data ''support_reference''));
                             st4 = (if summary_saved
                                    then addSystemNote st3 ''Summary and next steps are saved for this request.''
                                    else st3);
                             st5 = setStatus st4 ''Connected.''
                         in if mode st5 = VoiceMode then
                              (let spoken = first_truthy
                                              [get_prop data ''spoken_message'', get_prop data ''message'',
                                               get_prop data ''response_text''] [];
                                   st6 = st5\<lparr>voiceRetries := 0\<rparr>
                               in case speak_request st6 spoken of
                                    None \<Rightarrow> send_finally i st6
                                  | Some r \<Rightarrow> st6\<lparr>requests := requests st6 @ [r],
                                                     turns := (turns st6)[i := Speaking]\<rparr>)
                            else send_finally i st5)))))"

subsection \<open>Sample states\<close>

text \<open>
  The state the script builds when the page loads at the default path, before
  \<open>init()\<close> runs; \<open>random36\<close> is the draw of the first \<open>newSessionId()\<close>.
\<close>

definition initial_state :: "string \<Rightarrow> page_state" where
  "initial_state random36 =
     \<lparr> mode = TextMode, tenant = ''flair'', sessionId = newSessionId random36,
       customerId = ''cust-web-demo'', sending = False, lastResponse = JNull,
       promiseLedger = JArr [], customerEffort = JNull, brand_name = ''Support'',
       callCenterPhone = None, tracker_error_text = None, reset_greeting = None,
       voiceRetries = 0, voiceBackend_stt = ''unknown'', voiceBackend_tts = ''browser'',
       synthEnabled = True, lastHealth = JNull, lastCapabilities = JNull,
       lastAlerts = JArr [], transcript = [], statusLine = [],
       sendBtn_disabled = False, input_value = [], voiceHint = [], requests = [],
       turns = [] \<rparr>"

definition a_browser :: browser where
  "a_browser =
     \<lparr> mediaRecorder = True, speechRecognition = True,
       null_read_error = \<lparr> err_name = ''TypeError'', err_message = ''data is null'' \<rparr> \<rparr>"

text \<open>
  A page in voice mode whose first turn has been answered and is being spoken: the call
  of \<open>sendCustomerMessage\<close> is suspended at \<open>await speak(spoken)\<close>.
\<close>

definition speaking_state :: page_state where
  "speaking_state =
     send_reply a_browser
       (sendCustomerMessage ((initial_state ''0.i'')\<lparr>mode := VoiceMode\<rparr>)
          (Some ''Where is my bag?'') (Some ''voice''))
       0
       (Responded 200 (Inr (JObj [(''message'', JStr ''I am checking on your bag.'')])))
       None"


text \<open>A page in text mode whose first turn is waiting for its reply.\<close>

definition waiting_state :: page_state where
  "waiting_state = sendCustomerMessage (initial_state ''0.i'') (Some ''Where is my refund?'') None"

section \<open>Continuing on another channel\<close>

definition continue_request :: "page_state \<Rightarrow> string \<Rightarrow> request" where
  "continue_request st toChannel =
     Request ''/api/v1/customer/continue-channel''
       [(''session_id'', sessionId st),
        (''customer_id'', customerId st),
        (''from_channel'', if mode st = VoiceMode then ''voice'' else ''web_chat''),
        (''to_channel'', toChannel),
        (''tenant'', tenant st)]"

text \<open>\<open>continueChannel(toChannel)\<close> up to its \<open>fetch\<close>.\<close>

definition continueChannel :: "page_state \<Rightarrow> string \<Rightarrow> page_state" where
  "continueChannel st toChannel = st\<lparr>requests := requests st @ [continue_request st toChannel]\<rparr>"

text \<open>
  The \<open>try\<close> block after the \<open>fetch\<close> has settled: the state it reaches (\<open>Inr\<close>) or
  the exception it raises (\<open>Inl\<close>). A body that is \<open>null\<close> raises at
  \<open>data.customer_message\<close>, before anything is shown. The closing \<open>refreshTracker()\<close>
  only starts a background read for a side panel and is left out.
\<close>

definition continue_try ::
  "browser \<Rightarrow> page_state \<Rightarrow> string \<Rightarrow> fetch_outcome \<Rightarrow> js_error + page_state" where
  "continue_try b st toChannel outcome =
     (case outcome of
        Rejected e \<Rightarrow> Inl e
      | Responded code body \<Rightarrow>
          if \<not> http_ok code then Inl (new_Error (userFacingErrorMessage st ''send''))
          else
            (case body of
               Inl e \<Rightarrow> Inl e
             | Inr data \<Rightarrow>
                 if data = JNull then Inl (null_read_error b)
                 else
                   (let st1 = addSystemNote st
                                (first_truthy [get_prop data ''customer_message'']
                                   (''Prepared continuation to '' @ toChannel @ ''.''));
                        st2 = (if toChannel = ''phone'' \<and> truthy (get_prop data ''phone_number'')
                               then addSystemNote st1
                                      (''Call '' @ js_or (Some (brand_name st1)) ''support'' @ '': ''
                                       @ first_truthy [get_prop data ''phone_number''] [])
                               else st1);
                        st3 = (if toChannel = ''sms'' \<and> truthy (get_prop data ''sms_preview'')
                               then addSystemNote st2
                                      ''SMS summary is ready. You can use Summary if you want a fresh recap after another update.''
                               else st2)
                    in Inr (setStatus st3 (''Prepared continuation to '' @ toChannel @ ''.'')))))"

text \<open>The note of the \<open>catch\<close> block when the target channel is the phone.\<close>

definition phone_fallback_note :: "page_state \<Rightarrow> string" where
  "phone_fallback_note st =
     ''Could not prepare phone continuation automatically. ''
     @ js_or (Some (brand_name st)) ''Support''
     @ [CHR 0x27] @ ''s published call center number is ''
     @ js_or (callCenterPhone st) ''the official support number''
     @ ''. Wait times may vary.''"

definition continue_catch :: "page_state \<Rightarrow> string \<Rightarrow> js_error \<Rightarrow> page_state" where
  "continue_catch st toChannel err =
     (if toChannel = ''phone'' then
        setStatus (addSystemNote st (phone_fallback_note st)) ''Phone number shown.''
      else if toChannel = ''sms'' then
        setStatus
          (addSystemNote st
             ''Could not prepare SMS continuation automatically. You can still use Summary to prepare a support recap, or continue by phone.'')
          ''SMS continuation unavailable.''
      else
        setStatus
          (addSystemNote st
             (''I couldn't prepare '' @ toChannel
              @ '' continuation right now. Please try again in a moment.''))
          ((if toChannel = ''phone'' then ''Phone'' else ''SMS'') @ '' continuation unavailable.''))"

text \<open>
  \<open>continueChannel\<close> from the moment its \<open>fetch\<close> has settled to its return. The
  \<open>catch\<close> block handles every exception of the \<open>try\<close> block and raises none, so the
  call always returns a state.
\<close>

definition continue_settle ::
  "browser \<Rightarrow> page_state \<Rightarrow> string \<Rightarrow> fetch_outcome \<Rightarrow> page_state" where
  "continue_settle b st toChannel outcome =
     (case continue_try b st toChannel outcome of
        Inr st' \<Rightarrow> st'
      | Inl err \<Rightarrow> continue_catch st toChannel err)"

text \<open>
  The continue-channel request fails: the \<open>fetch\<close> rejects (network error), the
  response is not OK (HTTP error), or its body cannot be read or is \<open>null\<close>.
\<close>

definition request_failed :: "fetch_outcome \<Rightarrow> bool" where
  "request_failed outcome =
     (case outcome of
        Rejected e \<Rightarrow> True
      | Responded code body \<Rightarrow>
          if http_ok code then (case body of Inl e \<Rightarrow> True | Inr data \<Rightarrow> data = JNull)
          else True)"

text \<open>
  The note shown for a failed phone continuation while the page knows no call centre
  number.
\<close>

definition no_phone_note :: string where
  "no_phone_note =
     ''Could not prepare phone continuation automatically. Support'' @ [CHR 0x27]
     @ ''s published call center number is the official support number. Wait times may vary.''"

subsection \<open>The base script\<close>

definition continue_try_base ::
  "browser \<Rightarrow> page_state \<Rightarrow> string \<Rightarrow> fetch_outcome \<Rightarrow> js_error + page_state" where
  "continue_try_base b st toChannel outcome =
     (case outcome of
        Rejected e \<Rightarrow> Inl e
      | Responded code body \<Rightarrow>
          if \<not> http_ok code then Inl (new_Error (''HTTP '' @ decimal code))
          else
            (case body of
               Inl e \<Rightarrow> Inl e
             | Inr data \<Rightarrow>
                 if data = JNull then Inl (null_read_error b)
                 else
                   (let st1 = addSystemNote st
                                (first_truthy [get_prop data ''customer_message'']
                                   (''Prepared continuation to '' @ toChannel @ ''.''));
                        st2 = (if toChannel = ''phone'' \<and> truthy (get_prop data ''phone_number'')
                               then addSystemNote st1
                                      (''Call '' @ js_or (Some (brand_name st1)) ''support'' @ '': ''
                                       @ first_truthy [get_prop data ''phone_number''] [])
                               else st1);
                        st3 = (if toChannel = ''sms'' \<and> truthy (get_prop data ''sms_preview'')
                               then addSystemNote st2
                                      ''SMS summary is ready. You can use Summary if you want a fresh recap after another update.''
                               else st2)
                    in Inr (setStatus st3 (''Prepared continuation to '' @ toChannel @ ''.'')))))"

definition continue_catch_base :: "page_state \<Rightarrow> string \<Rightarrow> js_error \<Rightarrow> page_state" where
  "continue_catch_base st toChannel err =
     (if toChannel = ''phone'' then
        setStatus (addSystemNote st (phone_fallback_note st)) ''Phone number shown.''
      else if toChannel = ''sms'' then
        setStatus
          (addSystemNote st
             ''Could not prepare SMS continuation automatically. You can still use Summary to prepare a support recap, or continue by phone.'')
          ''SMS continuation unavailable.''
      else
        addSystemNote st
          (''Could not prepare '' @ toChannel @ '' continuation. '' @ String_of_error err))"

definition continue_settle_base ::
  "browser \<Rightarrow> page_state \<Rightarrow> string \<Rightarrow> fetch_outcome \<Rightarrow> page_state" where
  "continue_settle_base b st toChannel outcome =
     (case continue_try_base b st toChannel outcome of
        Inr st' \<Rightarrow> st'
      | Inl err \<Rightarrow> continue_catch_base st toChannel err)"

section \<open>Resetting the session\<close>

text \<open>
  \<open>resetVoiceButton\<close>, as far as the state above goes (\<open>stopVoiceInput\<close> ends with
  it; the recorder and the audio element are not part of the state).
\<close>

definition resetVoiceButton :: "page_state \<Rightarrow> page_state" where
  "resetVoiceButton st =
     (let st1 = (if voiceHint st = ''Listening...''
                 then st\<lparr>voiceHint := ''Speak, then press again to stop.''\<rparr> else st)
      in if statusLine st1 = ''Listening...'' then setStatus st1 ''Voice mode.'' else st1)"

definition reset_request :: "page_state \<Rightarrow> request" where
  "reset_request st =
     Request ''/api/v1/customer/session/reset''
       [(''session_id'', sessionId st),
        (''customer_id'', customerId st),
        (''channel'', if mode st = VoiceMode then ''voice'' else ''web''),
        (''tenant'', tenant st)]"

text \<open>\<open>resetSession()\<close> up to its \<open>fetch\<close>.\<close>

definition resetSession :: "page_state \<Rightarrow> page_state" where
  "resetSession st =
     (let st1 = resetVoiceButton st in st1\<lparr>requests := requests st1 @ [reset_request st1]\<rparr>)"

text \<open>
  \<open>resetSession\<close> after the \<open>fetch\<close> has settled. The outcome is ignored: a rejection
  is caught and a response is not read. \<open>random36\<close> is the text of
  \<open>Math.random().toString(36)\<close> drawn by \<open>newSessionId\<close>. The side panels that are
  redrawn empty and the background reads that are started are not part of the state.
\<close>

definition reset_settle :: "page_state \<Rightarrow> fetch_outcome \<Rightarrow> string \<Rightarrow> page_state" where
  "reset_settle st outcome random36 =
     (let st1 = st\<lparr>sessionId := newSessionId random36, lastResponse := JNull,
                   promiseLedger := JArr [], customerEffort := JNull, transcript := []\<rparr>;
          st2 = appendMessage st1 Agent
                  (js_or (reset_greeting st1)
                     (''New conversation started. I can help with support issues for ''
                      @ js_or (Some (brand_name st1)) ''your account'' @ ''.''));
          st3 = setStatus (st2\<lparr>input_value := []\<rparr>) ''Connected.''
      in addSystemNote st3 ''Started a new request.'')"

section \<open>Voice transcription\<close>

text \<open>An audio blob: its size in bytes.\<close>

record audio_blob =
  blob_size :: nat

text \<open>
  \<open>transcribeAndSend(blob, mimeType)\<close> up to its first await. The flag tells whether
  the call goes on to read the blob; when it is \<open>False\<close> the call has returned.
\<close>

definition transcribeAndSend :: "page_state \<Rightarrow> audio_blob option \<Rightarrow> page_state \<times> bool" where
  "transcribeAndSend st blob =
     (if (case blob of None \<Rightarrow> True | Some bl \<Rightarrow> blob_size bl < 300) then
        ((addSystemNote st
            ''I couldn't hear enough audio. Please try again and speak a little longer.'')
           \<lparr>voiceHint := ''Try again and speak a little longer.''\<rparr>, False)
      else ((setStatus st ''Transcribing...'')\<lparr>voiceHint := ''Transcribing...''\<rparr>, True))"

definition transcribe_request :: "page_state \<Rightarrow> string \<Rightarrow> string option \<Rightarrow> request" where
  "transcribe_request st audioBase64 mimeType =
     Request ''/api/v1/customer/voice/transcribe''
       [(''audio_base64'', audioBase64),
        (''mime_type'', js_or mimeType ''audio/webm''),
        (''language'', ''en''),
        (''session_id'', sessionId st),
        (''customer_id'', customerId st),
        (''tenant'', tenant st)]"

text \<open>
  The call goes on when \<open>blobToBase64\<close> has settled: a failure reaches the \<open>catch\<close>
  block, a success sends the transcription request. What the call does with the
  response of that request is not part of the model.
\<close>

definition transcribe_encoded ::
  "page_state \<Rightarrow> string option \<Rightarrow> js_error + string \<Rightarrow> page_state" where
  "transcribe_encoded st mimeType encoded =
     (case encoded of
        Inl err \<Rightarrow>
          setStatus
            ((addSystemNote st
                (js_or (Some (err_message err)) (userFacingErrorMessage st ''voice_transcription'')))
               \<lparr>voiceHint := ''Voice transcription failed. You can type your question instead.''\<rparr>)
            ''Voice transcription failed.''
      | Inr audioBase64 \<Rightarrow>
          st\<lparr>requests := requests st @ [transcribe_request st audioBase64 mimeType]\<rparr>)"

fun is_transcribe_request :: "request \<Rightarrow> bool" where
  "is_transcribe_request (Request url body) = (url = ''/api/v1/customer/voice/transcribe'')"

section \<open>The technical details panel\<close>

definition safe_fields :: "string list" where
  "safe_fields =
     [''session_id'', ''tenant'', ''channel'', ''mode'', ''state'', ''agent'', ''intent'',
      ''next_actions'', ''escalate'']"

text \<open>
  \<open>safeLastResponse\<close>: a property whose value is \<open>undefined\<close> is not printed by
  \<open>JSON.stringify\<close> and is left out here.
\<close>

definition safeLastResponse :: "json \<Rightarrow> json" where
  "safeLastResponse r =
     (if truthy (Some r) \<and> is_object r then
        JObj (List.map_filter (\<lambda>k. map_option (Pair k) (get_prop r k)) safe_fields)
      else JNull)"

definition technical_payload :: "browser \<Rightarrow> page_state \<Rightarrow> json" where
  "technical_payload b st =
     JObj
       [(''sessionId'', JStr (sessionId st)),
        (''customerId'', JStr (customerId st)),
        (''tenant'', JStr (tenant st)),
        (''mode'', JStr (mode_name (mode st))),
        (''voiceBackend'',
           JObj [(''stt'', JStr (voiceBackend_stt st)), (''tts'', JStr (voiceBackend_tts st))]),
        (''mediaRecorderSupported'', JBool (mediaRecorder b)),
        (''speechRecognitionSupported'', JBool (speechRecognition b)),
        (''speechSynthesisSupported'', JBool (synthEnabled st)),
        (''health'', lastHealth st),
        (''lastCapabilities'', lastCapabilities st),
        (''lastResponse'', safeLastResponse (lastResponse st)),
        (''lastAlerts'', lastAlerts st)]"

text \<open>\<open>renderTechnical()\<close>: the text it puts into \<open>els.technicalPre\<close>.\<close>

definition renderTechnical :: "browser \<Rightarrow> page_state \<Rightarrow> string" where
  "renderTechnical b st = JSON_stringify (technical_payload b st)"

subsection \<open>Sample values\<close>

text \<open>A page that has loaded the branding of a tenant with a call centre number.\<close>

definition branded_state :: page_state where
  "branded_state =
     (initial_state ''0.i'')
       \<lparr>brand_name := ''Flair Airlines'', callCenterPhone := Some ''1-833-711-2333''\<rparr>"

text \<open>Two responses that agree on the nine fields of the panel and differ elsewhere.\<close>

definition answer_with_trace :: json where
  "answer_with_trace =
     JObj [(''session_id'', JStr ''sess-i''), (''escalate'', JBool False),
           (''message'', JStr ''Your refund is on its way.''),
           (''debug_trace'', JStr ''sql: select 1'')]"

definition answer_plain :: json where
  "answer_plain =
     JObj [(''message'', JStr ''Other text''), (''escalate'', JBool False),
           (''session_id'', JStr ''sess-i'')]"

text \<open>
  Two last responses that have none of the nine fields: an object with a message only,
  and a body that is a bare JSON string.
\<close>

definition answer_message_only :: json where
  "answer_message_only = JObj [(''message'', JStr ''Done.'')]"

definition answer_bare_string :: json where
  "answer_bare_string = JStr ''Done.''"

section \<open>The orchestrator core, after the specification\<close>

text \<open>
  Modelled from the spec: the response of a turn. The orchestrator (\<open>processTurn\<close>)
  is not among the sources; the specification gives its contract as
  \<open>processTurn(...) \<rightarrow> {message, artifacts, next_actions, customer_plan, escalate}\<close>.
\<close>

record core_response =
  message :: string
  artifacts :: "string list"
  next_actions :: "string list"
  escalate :: bool

text \<open>
  Modelled from the spec: what a specialist handler returns (section 4.3 of the
  specification); the handlers are not among the sources. A commitment is a title with
  its summary.
\<close>

record handler_result =
  h_message :: string
  h_artifacts :: "string list"
  h_commitments :: "(string \<times> string) list"
  h_next_actions :: "string list"
  h_escalate :: bool

text \<open>
  Modelled from the spec: the state of one session in the Session Store, which is not
  among the sources: the escalation flag, the promise ledger, the artifacts produced so
  far, and the responses already delivered, by turn sequence number.
\<close>

record core_session =
  escalated :: bool
  ledger :: "(string \<times> string) list"
  produced :: "string list"
  delivered :: "(nat \<times> core_response) list"

text \<open>
  Modelled from the spec: a session id the store does not know is an implicit session
  creation (section 7, \<open>session_not_found\<close>); the store is not among the sources.
\<close>

definition new_session :: core_session where
  "new_session = \<lparr> escalated = False, ledger = [], produced = [], delivered = [] \<rparr>"

text \<open>
  Modelled from the spec: the Promise Ledger's \<open>record\<close> (section 4.4), which is not
  among the sources: recording a title that is already in the ledger updates that entry
  rather than adding a second one.
\<close>

fun record_commitment :: "string \<times> string \<Rightarrow> (string \<times> string) list \<Rightarrow> (string \<times> string) list" where
  "record_commitment c [] = [c]"
| "record_commitment c (d # ds) =
     (if fst d = fst c then c # ds else d # record_commitment c ds)"

text \<open>
  Modelled from the spec: \<open>processTurn\<close> of the orchestrator, which is not among the
  sources. A turn whose sequence number was already delivered in the session is a
  redelivery: the stored response is returned and nothing is processed (section 7,
  \<open>transport_redelivery\<close>). Otherwise the handler runs, the escalation flag is raised
  when the session is already escalated or the handler or the escalation policy asks
  for it (section 4.6: the core never un-escalates), and the commitments, artifacts and
  the response are committed together. The handler and the policy are parameters.
\<close>

definition processTurn ::
  "(core_session \<Rightarrow> string \<Rightarrow> handler_result) \<Rightarrow> (core_session \<Rightarrow> string \<Rightarrow> bool)
     \<Rightarrow> (string \<rightharpoonup> core_session) \<Rightarrow> string \<Rightarrow> nat \<Rightarrow> string
     \<Rightarrow> (string \<rightharpoonup> core_session) \<times> core_response" where
  "processTurn handler policy store session_id turn_sequence text =
     (let s = (case store session_id of None \<Rightarrow> new_session | Some s0 \<Rightarrow> s0) in
      case map_of (delivered s) turn_sequence of
        Some r \<Rightarrow> (store, r)
      | None \<Rightarrow>
          (let res = handler s text;
               esc = (escalated s \<or> h_escalate res \<or> policy s text);
               r = \<lparr> message = h_message res, artifacts = h_artifacts res,
                     next_actions = h_next_actions res, escalate = esc \<rparr>;
               s' = s\<lparr> escalated := esc,
                       ledger := fold record_commitment (h_commitments res) (ledger s),
                       produced := produced s @ h_artifacts res,
                       delivered := (turn_sequence, r) # delivered s \<rparr>
           in (store(session_id \<mapsto> s'), r)))"

text \<open>
  Modelled from the spec: the explicit clear of an escalation by an external actor (the
  human agent system), which is not among the sources.
\<close>

definition clear_escalation :: "(string \<rightharpoonup> core_session) \<Rightarrow> string \<Rightarrow> (string \<rightharpoonup> core_session)" where
  "clear_escalation store session_id =
     (case store session_id of
        None \<Rightarrow> store
      | Some s \<Rightarrow> store(session_id \<mapsto> s\<lparr>escalated := False\<rparr>))"


text \<open>
  Modelled from the spec: what can happen to the Session Store, which is not among the
  sources: a turn is delivered (for any session, with any sequence number), or an
  external actor clears the escalation of a session.
\<close>

datatype core_event = Deliver string nat string | Clear string

text \<open>
  Modelled from the spec: the store after one event; the orchestrator is not among the
  sources.
\<close>

fun core_step ::
  "(core_session \<Rightarrow> string \<Rightarrow> handler_result) \<Rightarrow> (core_session \<Rightarrow> string \<Rightarrow> bool)
     \<Rightarrow> (string \<rightharpoonup> core_session) \<Rightarrow> core_event \<Rightarrow> (string \<rightharpoonup> core_session)" where
  "core_step handler policy store (Deliver session_id q text) =
     fst (processTurn handler policy store session_id q text)"
| "core_step handler policy store (Clear session_id) = clear_escalation store session_id"

text \<open>
  Modelled from the spec: the store after a list of events, in order; the orchestrator
  is not among the sources.
\<close>

definition core_run ::
  "(core_session \<Rightarrow> string \<Rightarrow> handler_result) \<Rightarrow> (core_session \<Rightarrow> string \<Rightarrow> bool)
     \<Rightarrow> (string \<rightharpoonup> core_session) \<Rightarrow> core_event list \<Rightarrow> (string \<rightharpoonup> core_session)" where
  "core_run handler policy store evs = foldl (core_step handler policy) store evs"



text \<open>
  Modelled from the spec: a sample handler for the examples below, which promises a
  refund check and asks for a human when the customer does; the handlers of the core are
  not among the sources.
\<close>

definition sample_handler :: "core_session \<Rightarrow> string \<Rightarrow> handler_result" where
  "sample_handler s text =
     \<lparr> h_message = ''I will check your refund.'',
       h_artifacts = [''refund_estimate''],
       h_commitments = [(''Check refund eligibility'', ''I will check eligibility.'')],
       h_next_actions = [''submit_refund''],
       h_escalate = (text = ''I need a human agent now'') \<rparr>"

text \<open>
  Modelled from the spec: a sample escalation policy that never escalates by itself; the
  policy of the core is not among the sources.
\<close>

definition sample_policy :: "core_session \<Rightarrow> string \<Rightarrow> bool" where
  "sample_policy s text = False"

text \<open>
  Modelled from the spec: a sample first delivery into an empty store; the core it runs
  on is not among the sources.
\<close>

definition first_delivery :: "(string \<rightharpoonup> core_session) \<times> core_response" where
  "first_delivery =
     processTurn sample_handler sample_policy Map.empty ''s1'' 1 ''Where is my refund?''"

text \<open>
  Modelled from the spec: a sample first turn that asks for a human agent; the core it
  runs on is not among the sources.
\<close>

definition escalating_turn :: "(string \<rightharpoonup> core_session) \<times> core_response" where
  "escalating_turn =
     processTurn sample_handler sample_policy Map.empty ''s1'' 1 ''I need a human agent now''"


text \<open>
  Modelled from the spec: sample events that follow a first turn: turns of the same and of
  another session, a redelivery, and clears; the core they run on is not among the
  sources.
\<close>

definition sample_events :: "core_event list" where
  "sample_events =
     [Deliver ''s1'' 2 ''And my bag?'', Deliver ''s2'' 1 ''Hello'', Clear ''s1'',
      Deliver ''s1'' 3 ''Thanks'']"


section \<open>Properties of the promise ledger panel\<close>

lemma render_items_length: "length (fst (render_items now xs)) \<le> length xs"
proof (induction xs)
  case Nil
  show ?case by simp
next
  case (Cons x xs)
  show ?case
  proof (cases x)
    case None
    then show ?thesis by simp
  next
    case (Some it)
    with Cons show ?thesis by (auto split: prod.splits)
  qed
qed

lemma render_items_all_cards:
  "list_all (\<lambda>x. x \<noteq> None) xs \<Longrightarrow>
     length (filter is_card (fst (render_items now xs))) = length xs"
proof (induction xs)
  case Nil
  show ?case by simp
next
  case (Cons x xs)
  then show ?case by (cases x) (auto split: prod.splits)
qed

lemma cards_le_children: "length (filter is_card cs) \<le> length cs"
  by (rule length_filter_le)

text \<open>
  C8. Whatever list of commitments renderPromiseLedger is given, and whatever the panel
  held before, the panel holds at most 6 commitment cards afterwards.
\<close>

theorem renderPromiseLedger_at_most_six:
  "cards_shown (fst (renderPromiseLedger promiseList items now)) \<le> 6"
proof (cases promiseList)
  case None
  then show ?thesis by (simp add: renderPromiseLedger_def cards_shown_def)
next
  case (Some old)
  let ?list = "case items of None \<Rightarrow> [] | Some xs \<Rightarrow> xs"
  show ?thesis
  proof (cases "?list = []")
    case True
    with Some show ?thesis by (simp add: renderPromiseLedger_def cards_shown_def)
  next
    case False
    obtain cs raised where r: "render_items now (take 6 ?list) = (cs, raised)"
      by (cases "render_items now (take 6 ?list)")
    have "length cs \<le> length (take 6 ?list)"
      using render_items_length [of now "take 6 ?list"] r by simp
    then have "length cs \<le> 6" by simp
    then have "length (filter is_card cs) \<le> 6"
      using cards_le_children [of cs] by linarith
    with Some False r show ?thesis
      by (simp add: renderPromiseLedger_def cards_shown_def)
  qed
qed

text \<open>The bound is met: six or more commitments without a null entry fill six cards.\<close>

lemma renderPromiseLedger_six_cards:
  assumes "6 \<le> length xs" and "list_all (\<lambda>x. x \<noteq> None) xs"
  shows "cards_shown (fst (renderPromiseLedger (Some old) (Some xs) now)) = 6"
proof -
  have ne: "xs \<noteq> []" using assms(1) by auto
  have "list_all (\<lambda>x. x \<noteq> None) (take 6 xs)"
    using assms(2) by (auto simp: list_all_iff dest: in_set_takeD)
  then have "length (filter is_card (fst (render_items now (take 6 xs)))) = length (take 6 xs)"
    by (rule render_items_all_cards)
  with assms(1) ne show ?thesis
    by (auto simp: renderPromiseLedger_def cards_shown_def split: prod.splits)
qed

text \<open>
  The claim C3 as the specification words it fails on the page: a commitment that is
  still \<open>active\<close> and was due two hours ago is drawn with the badge \<open>Active\<close> and the
  line \<open>Follow-up window reached.\<close>, and nothing on its card says overdue.
\<close>

theorem active_past_due_shown_active:
  "fst (renderPromiseLedger (Some []) (Some [Some late_commitment]) 1700007200000)
     = Some [Card \<lparr> card_title = ''Check refund eligibility'',
                     card_status_class = ''promise-status active'',
                     card_status_text = Label ''Active'',
                     card_summary = ''I will check whether this booking can be refunded.'',
                     card_meta = Some ''Follow-up window reached.'' \<rparr>]
   \<and> \<not> shows_overdue_line (render_card 1700007200000 late_commitment)"
  by (simp add: renderPromiseLedger_def render_card_def late_commitment_def formatPromiseDue_def
      js_or_def toLowerCase_def lower_char_def status_badge_def absHours_def
      shows_overdue_line_def says_overdue_def Let_def)

lemma says_overdue_formatPromiseDue:
  "says_overdue (formatPromiseDue now (Some it))
     = (due_at it \<noteq> None \<and> toLowerCase (js_or (status it) []) = ''overdue'')"
  by (simp add: formatPromiseDue_def says_overdue_def Let_def split: option.splits)

lemma formatPromiseDue_empty:
  "(formatPromiseDue now (Some it) = []) = (due_at it = None)"
  by (simp add: formatPromiseDue_def Let_def split: option.splits)

lemma status_badge_texts: "status_badge v \<in> set badge_texts"
  by (simp add: status_badge_def badge_texts_def)

text \<open>
  C3, amended. The card of a commitment carries an overdue line (one of the two
  \<open>Follow-up may be overdue\<close> texts) exactly when the commitment has a valid \<open>due_at\<close>
  and the status field delivered with it is \<open>overdue\<close> (in any letter case): the page
  reads the status and never derives overdue from \<open>due_at\<close> and the current time. The
  badge text is one of \<open>Active\<close>, \<open>Review\<close>, \<open>Done\<close> (or an inherited member), never
  an overdue label, and neither the badge nor the status class of the card changes with
  \<open>due_at\<close> or with the current time. A commitment with status \<open>active\<close> whose
  \<open>due_at\<close> has passed is shown with the badge \<open>Active\<close> and the line
  \<open>Follow-up window reached.\<close>
\<close>

theorem overdue_read_from_status:
  "shows_overdue_line (render_card now it)
     = (due_at it \<noteq> None \<and> toLowerCase (js_or (status it) []) = ''overdue'')
   \<and> card_status_text (render_card now it) \<in> set badge_texts
   \<and> card_status_text (render_card now' (it\<lparr>due_at := d'\<rparr>)) = card_status_text (render_card now it)
   \<and> card_status_class (render_card now' (it\<lparr>due_at := d'\<rparr>)) = card_status_class (render_card now it)
   \<and> (status it = Some ''active'' \<longrightarrow> due_at it = Some d \<longrightarrow> d \<le> now \<longrightarrow>
        card_status_text (render_card now it) = Label ''Active''
        \<and> card_meta (render_card now it) = Some ''Follow-up window reached.'')"
proof -
  have a: "shows_overdue_line (render_card now it)
             = (due_at it \<noteq> None \<and> toLowerCase (js_or (status it) []) = ''overdue'')"
  proof (cases "formatPromiseDue now (Some it) = []")
    case True
    then have "due_at it = None" by (simp add: formatPromiseDue_empty)
    with True show ?thesis by (simp add: shows_overdue_line_def render_card_def Let_def)
  next
    case False
    with says_overdue_formatPromiseDue [of now it] show ?thesis
      by (simp add: shows_overdue_line_def render_card_def Let_def)
  qed
  have b: "card_status_text (render_card now it) \<in> set badge_texts"
    using status_badge_texts by (simp add: render_card_def Let_def)
  have c: "card_status_text (render_card now' (it\<lparr>due_at := d'\<rparr>)) = card_status_text (render_card now it)"
    "card_status_class (render_card now' (it\<lparr>due_at := d'\<rparr>)) = card_status_class (render_card now it)"
    by (simp_all add: render_card_def Let_def)
  have e: "card_status_text (render_card now it) = Label ''Active''
        \<and> card_meta (render_card now it) = Some ''Follow-up window reached.''"
    if "status it = Some ''active''" "due_at it = Some d" "d \<le> now"
    using that
    by (simp add: render_card_def formatPromiseDue_def js_or_def toLowerCase_def lower_char_def
        status_badge_def Let_def)
  from a b c e show ?thesis by blast
qed

theorem overdue_read_from_status_witness:
  "status late_commitment = Some ''active'' \<and> due_at late_commitment = Some 1700000000000
   \<and> (1700000000000::int) \<le> 1700007200000
   \<and> shows_overdue_line (render_card 1700007200000 late_commitment) = False
   \<and> card_status_text (render_card 1700007200000 late_commitment) = Label ''Active''
   \<and> card_meta (render_card 1700007200000 late_commitment) = Some ''Follow-up window reached.''"
  using overdue_read_from_status [of 1700007200000 late_commitment _ _ 1700000000000]
  by (simp add: late_commitment_def js_or_def toLowerCase_def lower_char_def)

text \<open>
  The same commitment delivered with the status \<open>Overdue\<close> carries the overdue line;
  its badge still reads \<open>Active\<close>.
\<close>

lemma overdue_status_shown:
  "shows_overdue_line (render_card 1700007200000 (late_commitment\<lparr>status := Some ''Overdue''\<rparr>))
   \<and> card_meta (render_card 1700007200000 (late_commitment\<lparr>status := Some ''Overdue''\<rparr>))
       = Some ''Follow-up may be overdue (2h).''
   \<and> card_status_text (render_card 1700007200000 (late_commitment\<lparr>status := Some ''Overdue''\<rparr>))
       = Label ''Active''"
proof -
  have d: "decimal 2 = ''2''" by code_simp
  have l: "toLowerCase ''Overdue'' = ''overdue''" by code_simp
  show ?thesis
    by (simp add: render_card_def late_commitment_def formatPromiseDue_def js_or_def l d
        status_badge_def absHours_def shows_overdue_line_def says_overdue_def Let_def)
qed

section \<open>Properties of sending a message\<close>

lemmas page_defs = appendMessage_def addTypingIndicator_def removeTypingIndicator_def
  setStatus_def addSystemNote_def send_finally_def send_catch_def

lemma trim_samples:
  "trim ''Where is my refund?'' = ''Where is my refund?''"
  "trim ''Where is my bag?'' = ''Where is my bag?''"
  "trim ''I am checking on your bag.'' = ''I am checking on your bag.''"
  "trim ''upstream timeout: booking-db'' = ''upstream timeout: booking-db''"
  "trim [CHR 0xC2, CHR 0xA0] = []"
  by code_simp+

lemma waiting_state_facts:
  "turns waiting_state = [AwaitingReply]"
  "transcript waiting_state = [Message User ''Where is my refund?'', TypingNote]"
  "callCenterPhone waiting_state = None"
  by (simp_all add: waiting_state_def sendCustomerMessage_def initial_state_def page_defs
      trim_samples Let_def)

lemma userFacingErrorMessage_send_nonempty: "userFacingErrorMessage st ''send'' \<noteq> []"
  by (simp add: userFacingErrorMessage_def Let_def)

lemma server_message_nonempty: "server_message body = Some m \<Longrightarrow> m \<noteq> []"
  by (auto simp: server_message_def split: sum.splits option.splits json.splits if_splits)

lemma send_reply_error:
  assumes "i < length (turns st)" and "turns st ! i = AwaitingReply"
    and "callCustomerMessageAPI st outcome = Inl err"
  shows "transcript (send_reply b st i outcome fault)
           = filter (\<lambda>e. e \<noteq> TypingNote) (transcript st)
             @ [Message Agent (js_or (Some (err_message err)) (userFacingErrorMessage st ''send''))]"
    and "statusLine (send_reply b st i outcome fault) = ''Unable to send right now.''"
    and "sending (send_reply b st i outcome fault) = False"
  using assms by (simp_all add: send_reply_def page_defs js_or_def userFacingErrorMessage_def Let_def)

text \<open>
  The claim C1 as the specification words it fails: when the server answers a turn with
  an error status and a \<open>message\<close> of its own, the extended script shows that message
  word for word, and it is none of the fixed fallback messages.
\<close>

theorem server_message_shown_verbatim:
  "transcript (send_reply a_browser waiting_state 0
       (Responded 503 (Inr (JObj [(''message'', JStr ''upstream timeout: booking-db'')]))) None)
     = [Message User ''Where is my refund?'', Message Agent ''upstream timeout: booking-db'']
   \<and> ''upstream timeout: booking-db'' \<notin> set (fallback_messages waiting_state)"
  by (simp add: waiting_state_def send_reply_def sendCustomerMessage_def
      initial_state_def a_browser_def callCustomerMessageAPI_def http_ok_def page_defs
      server_message_def new_Error_def trim_samples message_request_def js_or_def
      newSessionId_def slice_2_10_def Let_def fallback_messages_def userFacingErrorMessage_def)


text \<open>
  A server message that is blank for \<open>trim\<close>, such as a lone no-break space, is not
  shown: the reply is the fixed fallback.
\<close>

lemma blank_server_message_falls_back:
  "server_message (Inr (JObj [(''message'', JStr [CHR 0xC2, CHR 0xA0])])) = None
   \<and> transcript (send_reply a_browser waiting_state 0
         (Responded 503 (Inr (JObj [(''message'', JStr [CHR 0xC2, CHR 0xA0])]))) None)
       = [Message User ''Where is my refund?'',
          Message Agent ''I couldn't process that request right now. Please try again in a moment.'']"
  by (simp add: waiting_state_def send_reply_def sendCustomerMessage_def
      initial_state_def a_browser_def callCustomerMessageAPI_def http_ok_def page_defs
      server_message_def new_Error_def trim_samples message_request_def js_or_def
      newSessionId_def slice_2_10_def Let_def userFacingErrorMessage_def)

text \<open>
  C1, amended. When the message request of a turn is answered with an HTTP error status,
  the extended script replies with the server's own \<open>message\<close> if the error body
  carries a non-blank one and otherwise with the fixed fallback of
  \<open>userFacingErrorMessage("send")\<close>; an exception without a message also gives that
  fallback. The base script replies with a fixed apology followed by the text of the
  exception.
\<close>

theorem send_error_reply:
  assumes "i < length (turns st)" and "turns st ! i = AwaitingReply"
  shows "(\<not> http_ok code \<longrightarrow>
            transcript (send_reply b st i (Responded code body) fault)
              = filter (\<lambda>e. e \<noteq> TypingNote) (transcript st)
                @ [Message Agent (case server_message body of
                                    Some m \<Rightarrow> m
                                  | None \<Rightarrow> userFacingErrorMessage st ''send'')])
       \<and> (err_message err = [] \<longrightarrow>
            transcript (send_reply b st i (Rejected err) fault)
              = filter (\<lambda>e. e \<noteq> TypingNote) (transcript st)
                @ [Message Agent (userFacingErrorMessage st ''send'')])
       \<and> (callCustomerMessageAPI_base outcome = Inl err \<longrightarrow>
            transcript (send_reply_base b st i outcome fault)
              = filter (\<lambda>e. e \<noteq> TypingNote) (transcript st)
                @ [Message Agent (''Sorry, I ran into a problem while sending your request. ''
                                  @ String_of_error err)])"
proof -
  have a: "transcript (send_reply b st i (Responded code body) fault)
              = filter (\<lambda>e. e \<noteq> TypingNote) (transcript st)
                @ [Message Agent (case server_message body of
                                    Some m \<Rightarrow> m
                                  | None \<Rightarrow> userFacingErrorMessage st ''send'')]"
    if "\<not> http_ok code"
  proof -
    let ?m = "case server_message body of Some m \<Rightarrow> m | None \<Rightarrow> userFacingErrorMessage st ''send''"
    have api: "callCustomerMessageAPI st (Responded code body) = Inl (new_Error ?m)"
      using that by (simp add: callCustomerMessageAPI_def)
    have ne: "?m \<noteq> []"
      using userFacingErrorMessage_send_nonempty [of st] server_message_nonempty [of body]
      by (cases "server_message body") auto
    from send_reply_error(1) [OF assms api, of b fault] ne show ?thesis
      by (simp add: js_or_def new_Error_def)
  qed
  have b: "transcript (send_reply b st i (Rejected err) fault)
              = filter (\<lambda>e. e \<noteq> TypingNote) (transcript st)
                @ [Message Agent (userFacingErrorMessage st ''send'')]"
    if "err_message err = []"
  proof -
    have api: "callCustomerMessageAPI st (Rejected err) = Inl err"
      by (simp add: callCustomerMessageAPI_def)
    from send_reply_error(1) [OF assms api, of b fault] that show ?thesis
      by (simp add: js_or_def)
  qed
  have c: "transcript (send_reply_base b st i outcome fault)
              = filter (\<lambda>e. e \<noteq> TypingNote) (transcript st)
                @ [Message Agent (''Sorry, I ran into a problem while sending your request. ''
                                  @ String_of_error err)]"
    if "callCustomerMessageAPI_base outcome = Inl err"
    using that assms by (simp add: send_reply_base_def send_catch_base_def page_defs)
  from a b c show ?thesis by blast
qed

theorem send_error_reply_witness:
  "0 < length (turns waiting_state) \<and> turns waiting_state ! 0 = AwaitingReply \<and> \<not> http_ok 500
   \<and> transcript (send_reply a_browser waiting_state 0
         (Responded 500 (Inl \<lparr>err_name = ''SyntaxError'', err_message = ''Unexpected token''\<rparr>)) None)
       = [Message User ''Where is my refund?'',
          Message Agent ''I couldn't process that request right now. Please try again in a moment.'']
   \<and> transcript (send_reply a_browser waiting_state 0
         (Rejected \<lparr>err_name = ''AbortError'', err_message = []\<rparr>) None)
       = [Message User ''Where is my refund?'',
          Message Agent ''I couldn't process that request right now. Please try again in a moment.'']
   \<and> transcript (send_reply_base a_browser waiting_state 0 (Responded 500 (Inr (JObj []))) None)
       = [Message User ''Where is my refund?'',
          Message Agent ''Sorry, I ran into a problem while sending your request. Error: Request failed (500)'']"
proof -
  have h1: "0 < length (turns waiting_state)" and h2: "turns waiting_state ! 0 = AwaitingReply"
    by (simp_all add: waiting_state_facts)
  have h3: "\<not> http_ok 500" by (simp add: http_ok_def)
  have d: "decimal 500 = ''500''" by code_simp
  have h4: "callCustomerMessageAPI_base (Responded 500 (Inr (JObj [])))
              = Inl (new_Error ''Request failed (500)'')"
    by (simp add: callCustomerMessageAPI_base_def h3 d)
  note t = send_error_reply [OF h1 h2, of 500 a_browser
      "Inl \<lparr>err_name = ''SyntaxError'', err_message = ''Unexpected token''\<rparr>" None
      _ "Responded 500 (Inr (JObj []))"]
  from t [of "\<lparr>err_name = ''AbortError'', err_message = []\<rparr>"] h3
  have a: "transcript (send_reply a_browser waiting_state 0
         (Responded 500 (Inl \<lparr>err_name = ''SyntaxError'', err_message = ''Unexpected token''\<rparr>)) None)
       = [Message User ''Where is my refund?'',
          Message Agent ''I couldn't process that request right now. Please try again in a moment.'']"
    and b: "transcript (send_reply a_browser waiting_state 0
         (Rejected \<lparr>err_name = ''AbortError'', err_message = []\<rparr>) None)
       = [Message User ''Where is my refund?'',
          Message Agent ''I couldn't process that request right now. Please try again in a moment.'']"
    by (simp_all add: waiting_state_facts server_message_def userFacingErrorMessage_def Let_def)
  from t [of "new_Error ''Request failed (500)''"] h4
  have c: "transcript (send_reply_base a_browser waiting_state 0 (Responded 500 (Inr (JObj []))) None)
       = [Message User ''Where is my refund?'',
          Message Agent ''Sorry, I ran into a problem while sending your request. Error: Request failed (500)'']"
    by (simp add: waiting_state_facts new_Error_def String_of_error_def)
  from h1 h2 h3 a b c show ?thesis by simp
qed

lemma sendCustomerMessage_consistent:
  "consistent st \<Longrightarrow> consistent (sendCustomerMessage st t c)"
  by (auto simp: consistent_def sendCustomerMessage_def Let_def page_defs)

lemma send_reply_consistent:
  assumes "consistent st"
  shows "consistent (send_reply b st i outcome fault)"
proof (cases "i < length (turns st) \<and> turns st ! i = AwaitingReply")
  case False
  with assms show ?thesis by (simp add: send_reply_def)
next
  case True
  with assms have i: "i = 0" and t: "turns st = [AwaitingReply]" and s: "sending st"
    by (auto simp: consistent_def length_Suc_conv le_Suc_eq)
  show ?thesis
    using i t s
    by (auto simp: send_reply_def consistent_def Let_def page_defs speak_request_def
        split: sum.splits option.splits json.splits)
qed

lemma send_spoken_consistent:
  assumes "consistent st"
  shows "consistent (send_spoken st i tts)"
proof (cases "i < length (turns st) \<and> turns st ! i = Speaking")
  case False
  with assms show ?thesis by (simp add: send_spoken_def)
next
  case True
  with assms have i: "i = 0" and t: "turns st = [Speaking]"
    by (auto simp: consistent_def length_Suc_conv le_Suc_eq)
  then show ?thesis
    by (auto simp: send_spoken_def consistent_def send_finally_def split: option.splits)
qed

lemma step_consistent: "consistent st \<Longrightarrow> consistent (step b st ev)"
  by (cases ev)
    (simp_all add: sendCustomerMessage_consistent send_reply_consistent send_spoken_consistent)

lemma run_consistent: "consistent st \<Longrightarrow> consistent (run b st evs)"
  unfolding run_def
  by (induction evs arbitrary: st) (simp_all add: step_consistent)

text \<open>
  The claim C5 as the specification words it fails: while the reply of the first turn is
  being spoken the status line reads \<open>Connected.\<close> and no typing note is shown (only
  the send button is still disabled, which the Enter key and the quick actions do not
  consult); a second turn sent then changes nothing on the page, so it gets no signal,
  and it is not applied after the first turn has finished either.
\<close>

theorem second_turn_dropped_silently:
  "sending speaking_state
   \<and> statusLine speaking_state = ''Connected.''
   \<and> TypingNote \<notin> set (transcript speaking_state)
   \<and> sendBtn_disabled speaking_state
   \<and> step a_browser speaking_state (Send (Some ''It is a red suitcase.'') None) = speaking_state
   \<and> run a_browser speaking_state [Send (Some ''It is a red suitcase.'') None, Spoken 0 None]
       = run a_browser speaking_state [Spoken 0 None]
   \<and> transcript (run a_browser speaking_state [Send (Some ''It is a red suitcase.'') None, Spoken 0 None])
       = [Message User ''Where is my bag?'', Message Agent ''I am checking on your bag.'']"
  by (simp add: speaking_state_def run_def send_reply_def sendCustomerMessage_def send_spoken_def
      initial_state_def a_browser_def callCustomerMessageAPI_def http_ok_def page_defs
      speak_request_def trim_samples message_request_def js_or_def newSessionId_def
      slice_2_10_def Let_def)

text \<open>
  C5, amended. From a page on which the \<open>sending\<close> flag agrees with the suspended calls,
  whatever happens next, at most one call of \<open>sendCustomerMessage\<close> is suspended at any
  time. While a turn is in flight a new turn is dropped: the call returns at once and
  leaves the whole page as it was (no request, no transcript entry, no status change, and
  no later replay). A turn that is accepted finds no other turn in flight and sends
  exactly one message request.
\<close>

theorem turn_in_flight_drops_new_turn:
  assumes "consistent st"
  shows "length (turns (run b st evs)) \<le> 1
       \<and> (sending (run b st evs) \<longrightarrow>
            step b (run b st evs) (Send t c) = run b st evs)
       \<and> (step b (run b st evs) (Send t c) \<noteq> run b st evs \<longrightarrow>
            turns (run b st evs) = []
            \<and> length (filter is_message_request (requests (step b (run b st evs) (Send t c))))
                = Suc (length (filter is_message_request (requests (run b st evs)))))"
proof -
  let ?s = "run b st evs"
  have c: "consistent ?s" using assms by (rule run_consistent)
  then have a: "length (turns ?s) \<le> 1" by (simp add: consistent_def)
  have b1: "step b ?s (Send t c) = ?s" if "sending ?s"
    using that by (simp add: sendCustomerMessage_def Let_def)
  have b2: "turns ?s = []
            \<and> length (filter is_message_request (requests (step b ?s (Send t c))))
                = Suc (length (filter is_message_request (requests ?s)))"
    if ne: "step b ?s (Send t c) \<noteq> ?s"
  proof -
    from ne have ns: "\<not> sending ?s" using b1 by blast
    with c have "turns ?s = []" by (simp add: consistent_def)
    moreover from ne have "length (filter is_message_request (requests (step b ?s (Send t c))))
                = Suc (length (filter is_message_request (requests ?s)))"
      by (auto simp: sendCustomerMessage_def Let_def page_defs message_request_def split: if_splits)
    ultimately show ?thesis by simp
  qed
  from a b1 b2 show ?thesis by blast
qed

theorem turn_in_flight_drops_new_turn_witness:
  "consistent (initial_state ''0.i'')
   \<and> sending (run a_browser (initial_state ''0.i'') [Send (Some ''Where is my refund?'') None])
   \<and> step a_browser (run a_browser (initial_state ''0.i'') [Send (Some ''Where is my refund?'') None])
         (Send (Some ''And my bag?'') None)
       = run a_browser (initial_state ''0.i'') [Send (Some ''Where is my refund?'') None]
   \<and> length (turns (run a_browser (initial_state ''0.i'') [Send (Some ''Where is my refund?'') None])) \<le> 1"
proof -
  have c: "consistent (initial_state ''0.i'')"
    by (simp add: consistent_def initial_state_def)
  have s: "sending (run a_browser (initial_state ''0.i'') [Send (Some ''Where is my refund?'') None])"
    by (simp add: run_def sendCustomerMessage_def initial_state_def page_defs trim_samples
        Let_def)
  from turn_in_flight_drops_new_turn [OF c, of a_browser "[Send (Some ''Where is my refund?'') None]"
      "Some ''And my bag?''" None] c s
  show ?thesis by simp
qed

section \<open>Properties of continuing on the phone\<close>

lemma request_failed_try:
  "request_failed outcome \<Longrightarrow> \<exists>err. continue_try b st ch outcome = Inl err"
  by (auto simp: request_failed_def continue_try_def split: fetch_outcome.splits sum.splits if_splits)

lemma request_failed_try_base:
  "request_failed outcome \<Longrightarrow> \<exists>err. continue_try_base b st ch outcome = Inl err"
  by (auto simp: request_failed_def continue_try_base_def split: fetch_outcome.splits sum.splits if_splits)

lemma phone_note_contains:
  assumes "callCenterPhone st = Some p" and "p \<noteq> []"
  shows "\<exists>pre post. phone_fallback_note st = pre @ p @ post"
proof -
  have "phone_fallback_note st
          = (''Could not prepare phone continuation automatically. ''
             @ js_or (Some (brand_name st)) ''Support''
             @ [CHR 0x27] @ ''s published call center number is '')
            @ p @ ''. Wait times may vary.''"
    using assms by (simp add: phone_fallback_note_def js_or_def)
  then show ?thesis by blast
qed

text \<open>
  The claim C2 as the specification words it fails: on a page that has not loaded a call
  centre number, the note shown after a failed phone continuation names
  \<open>the official support number\<close> in words and contains no digit, hence no phone number.
\<close>

theorem phone_fallback_without_number:
  "transcript (continue_settle a_browser (continueChannel (initial_state ''0.i'') ''phone'') ''phone''
       (Rejected \<lparr>err_name = ''TypeError'', err_message = ''Failed to fetch''\<rparr>))
     = [SystemNote no_phone_note]
   \<and> filter is_digit no_phone_note = []"
  by (simp add: continue_settle_def continue_try_def continue_catch_def continueChannel_def
      initial_state_def phone_fallback_note_def js_or_def addSystemNote_def setStatus_def
      no_phone_note_def is_digit_def)

text \<open>
  C2, amended. For every failure of the continue-channel request to the phone channel
  (network error, HTTP error, unreadable or null body), \<open>continueChannel\<close> of both
  scripts returns normally after adding one note, \<open>Could not prepare phone continuation
  automatically. <brand>'s published call center number is <phone>. Wait times may vary.\<close>,
  and the extended script sets the status \<open>Phone number shown.\<close> The note contains the
  call centre number whenever the page has loaded one; otherwise it says
  \<open>the official support number\<close> in its place.
\<close>

theorem continueChannel_phone_failure:
  assumes "request_failed outcome"
  shows "transcript (continue_settle b st ''phone'' outcome)
           = transcript st @ [SystemNote (phone_fallback_note st)]
       \<and> statusLine (continue_settle b st ''phone'' outcome) = ''Phone number shown.''
       \<and> transcript (continue_settle_base b st ''phone'' outcome)
           = transcript st @ [SystemNote (phone_fallback_note st)]
       \<and> (callCenterPhone st = Some p \<longrightarrow> p \<noteq> [] \<longrightarrow>
            (\<exists>pre post. phone_fallback_note st = pre @ p @ post))
       \<and> (callCenterPhone st = None \<longrightarrow>
            phone_fallback_note st
              = ''Could not prepare phone continuation automatically. ''
                @ js_or (Some (brand_name st)) ''Support'' @ [CHR 0x27]
                @ ''s published call center number is the official support number. Wait times may vary.'')"
proof -
  obtain e1 where e1: "continue_try b st ''phone'' outcome = Inl e1"
    using request_failed_try [OF assms] by blast
  obtain e2 where e2: "continue_try_base b st ''phone'' outcome = Inl e2"
    using request_failed_try_base [OF assms] by blast
  have a: "transcript (continue_settle b st ''phone'' outcome)
           = transcript st @ [SystemNote (phone_fallback_note st)]"
    and b: "statusLine (continue_settle b st ''phone'' outcome) = ''Phone number shown.''"
    using e1 by (simp_all add: continue_settle_def continue_catch_def page_defs js_or_def)
  have c: "transcript (continue_settle_base b st ''phone'' outcome)
           = transcript st @ [SystemNote (phone_fallback_note st)]"
    using e2 by (simp add: continue_settle_base_def continue_catch_base_def page_defs)
  have d: "callCenterPhone st = None \<longrightarrow>
            phone_fallback_note st
              = ''Could not prepare phone continuation automatically. ''
                @ js_or (Some (brand_name st)) ''Support'' @ [CHR 0x27]
                @ ''s published call center number is the official support number. Wait times may vary.''"
    by (simp add: phone_fallback_note_def js_or_def)
  from a b c d phone_note_contains [of st p] show ?thesis by blast
qed

theorem continueChannel_phone_failure_witness:
  "request_failed (Responded 503 (Inr (JObj [])))
   \<and> transcript (continue_settle a_browser branded_state ''phone'' (Responded 503 (Inr (JObj []))))
       = [SystemNote (''Could not prepare phone continuation automatically. Flair Airlines'' @ [CHR 0x27]
            @ ''s published call center number is 1-833-711-2333. Wait times may vary.'')]
   \<and> statusLine (continue_settle a_browser branded_state ''phone'' (Responded 503 (Inr (JObj []))))
       = ''Phone number shown.''"
proof -
  have f: "request_failed (Responded 503 (Inr (JObj [])))"
    by (simp add: request_failed_def http_ok_def)
  from continueChannel_phone_failure [OF f, of a_browser branded_state] f show ?thesis
    by (simp add: branded_state_def initial_state_def phone_fallback_note_def js_or_def)
qed


section \<open>Properties of the session identifier\<close>

text \<open>
  The claim C4 as the specification words it fails: \<open>newSessionId\<close> only cuts eight
  characters out of a random draw, so a reset whose draw repeats the draw of the page
  load (here 0.5, printed \<open>0.i\<close>) gives the new conversation the identifier of the old
  one.
\<close>

theorem reset_reuses_session_id:
  "sessionId (reset_settle (resetSession (initial_state ''0.i'')) (Responded 200 (Inr (JObj []))) ''0.i'')
     = sessionId (initial_state ''0.i'')
   \<and> sessionId (initial_state ''0.i'') = ''sess-i''"
  by (simp add: reset_settle_def resetSession_def initial_state_def newSessionId_def slice_2_10_def
      appendMessage_def setStatus_def addSystemNote_def resetVoiceButton_def Let_def)

text \<open>
  C4, amended. \<open>resetSession\<close> posts the old identifier (with the customer, the channel
  and the tenant) to the reset endpoint and then, whatever that request comes to, sets
  the session identifier to \<open>sess-\<close> followed by the characters 2 to 9 of a fresh random
  draw printed in base 36, at most 13 characters in all. The new identifier depends on
  nothing but the draw: two identifiers are equal exactly when the two draws agree in
  those characters, and a reset gives the old identifier again exactly when its draw
  agrees in them with the draw the old identifier was made from. Identifiers are
  therefore not guaranteed to be distinct.
\<close>

theorem resetSession_new_id:
  "sessionId (reset_settle (resetSession st) outcome random36) = ''sess-'' @ take 8 (drop 2 random36)
   \<and> length (sessionId (reset_settle (resetSession st) outcome random36)) \<le> 13
   \<and> requests (resetSession st)
       = requests st
         @ [Request ''/api/v1/customer/session/reset''
              [(''session_id'', sessionId st),
               (''customer_id'', customerId st),
               (''channel'', if mode st = VoiceMode then ''voice'' else ''web''),
               (''tenant'', tenant st)]]
   \<and> (sessionId (reset_settle st outcome r) = sessionId (reset_settle st' outcome' r'))
       = (take 8 (drop 2 r) = take 8 (drop 2 r'))
   \<and> (sessionId st = newSessionId r0 \<longrightarrow>
        (sessionId (reset_settle (resetSession st) outcome r) = sessionId st)
          = (take 8 (drop 2 r) = take 8 (drop 2 r0)))"
proof -
  have id: "sessionId (reset_settle s oc x) = ''sess-'' @ take 8 (drop 2 x)" for s oc x
    by (simp add: reset_settle_def newSessionId_def slice_2_10_def appendMessage_def
        setStatus_def addSystemNote_def Let_def)
  have keep: "sessionId (resetVoiceButton st) = sessionId st"
    "customerId (resetVoiceButton st) = customerId st"
    "mode (resetVoiceButton st) = mode st"
    "tenant (resetVoiceButton st) = tenant st"
    "requests (resetVoiceButton st) = requests st"
    by (simp_all add: resetVoiceButton_def setStatus_def Let_def)
  have a: "length (sessionId (reset_settle (resetSession st) outcome random36)) \<le> 13"
    by (simp add: id)
  have b: "requests (resetSession st)
       = requests st
         @ [Request ''/api/v1/customer/session/reset''
              [(''session_id'', sessionId st),
               (''customer_id'', customerId st),
               (''channel'', if mode st = VoiceMode then ''voice'' else ''web''),
               (''tenant'', tenant st)]]"
    by (simp add: resetSession_def reset_request_def keep Let_def)
  have c: "(sessionId (reset_settle st outcome r) = sessionId (reset_settle st' outcome' r'))
       = (take 8 (drop 2 r) = take 8 (drop 2 r'))"
    by (simp add: id)
  have d: "(sessionId (reset_settle (resetSession st) outcome r) = sessionId st)
          = (take 8 (drop 2 r) = take 8 (drop 2 r0))"
    if "sessionId st = newSessionId r0"
    using that by (simp add: id newSessionId_def slice_2_10_def)
  from id a b c d show ?thesis by blast
qed

theorem resetSession_new_id_witness:
  "sessionId (initial_state ''0.i'') = newSessionId ''0.i''
   \<and> sessionId (reset_settle (resetSession (initial_state ''0.i''))
         (Rejected \<lparr>err_name = ''TypeError'', err_message = ''Failed to fetch''\<rparr>) ''0.4fzyo82mvyr'')
       = ''sess-4fzyo82m''
   \<and> sessionId (reset_settle (resetSession (initial_state ''0.i''))
         (Rejected \<lparr>err_name = ''TypeError'', err_message = ''Failed to fetch''\<rparr>) ''0.4fzyo82mvyr'')
       \<noteq> sessionId (initial_state ''0.i'')
   \<and> requests (resetSession (initial_state ''0.i''))
       = [Request ''/api/v1/customer/session/reset''
            [(''session_id'', ''sess-i''), (''customer_id'', ''cust-web-demo''),
             (''channel'', ''web''), (''tenant'', ''flair'')]]"
proof -
  have h: "sessionId (initial_state ''0.i'') = newSessionId ''0.i''"
    by (simp add: initial_state_def)
  from resetSession_new_id [of "initial_state ''0.i''"
      "Rejected \<lparr>err_name = ''TypeError'', err_message = ''Failed to fetch''\<rparr>"
      "''0.4fzyo82mvyr''" "''0.4fzyo82mvyr''" _ _ _ "''0.i''"] h
  show ?thesis
    by (simp add: initial_state_def newSessionId_def slice_2_10_def)
qed

section \<open>Properties of the technical details panel\<close>

lemma map_filter_agree:
  "(\<And>k. k \<in> set ks \<Longrightarrow> f k = g k) \<Longrightarrow> List.map_filter f ks = List.map_filter g ks"
proof (induction ks)
  case Nil
  show ?case by (simp add: List.map_filter_simps)
next
  case (Cons a ks)
  have "f a = g a" using Cons.prems by simp
  moreover have "List.map_filter f ks = List.map_filter g ks"
    using Cons.IH Cons.prems by simp
  ultimately show ?case by (simp add: List.map_filter_simps split: option.splits)
qed

lemma safeLastResponse_keys:
  "safeLastResponse r = JObj kvs \<Longrightarrow> set (map fst kvs) \<subseteq> set safe_fields"
  by (auto simp: safeLastResponse_def List.map_filter_def split: if_splits)

text \<open>
  The claim C9 as worded fails: a last response that is an object without any of the
  nine fields and a last response that is a bare JSON string agree on all nine fields
  (none is present), yet the panel prints \<open>{}\<close> for the first and \<open>null\<close> for the
  second.
\<close>

theorem object_and_string_print_differently:
  "map (get_prop answer_message_only) safe_fields = map (get_prop answer_bare_string) safe_fields
   \<and> safeLastResponse answer_message_only = JObj []
   \<and> safeLastResponse answer_bare_string = JNull
   \<and> renderTechnical a_browser ((initial_state ''0.i'')\<lparr>lastResponse := answer_message_only\<rparr>)
       \<noteq> renderTechnical a_browser ((initial_state ''0.i'')\<lparr>lastResponse := answer_bare_string\<rparr>)"
proof -
  have a: "map (get_prop answer_message_only) safe_fields
             = map (get_prop answer_bare_string) safe_fields"
    by (simp add: answer_message_only_def answer_bare_string_def safe_fields_def)
  have b: "safeLastResponse answer_message_only = JObj []"
    by (simp add: answer_message_only_def safeLastResponse_def safe_fields_def
        List.map_filter_simps)
  have c: "safeLastResponse answer_bare_string = JNull"
    by (simp add: answer_bare_string_def safeLastResponse_def)
  have d: "renderTechnical a_browser ((initial_state ''0.i'')\<lparr>lastResponse := answer_message_only\<rparr>)
       \<noteq> renderTechnical a_browser ((initial_state ''0.i'')\<lparr>lastResponse := answer_bare_string\<rparr>)"
    by (simp add: renderTechnical_def technical_payload_def JSON_stringify_def b c
        initial_state_def a_browser_def quote_def escape_char_def newSessionId_def slice_2_10_def)
  from a b c d show ?thesis by simp
qed

text \<open>
  C9, amended. The text \<open>renderTechnical\<close> writes into the technical panel depends on
  the last response only through whether it is an object at all and, if it is, through
  the fields \<open>session_id\<close>, \<open>tenant\<close>, \<open>channel\<close>, \<open>mode\<close>, \<open>state\<close>, \<open>agent\<close>,
  \<open>intent\<close>, \<open>next_actions\<close> and \<open>escalate\<close>: two last responses that are both objects
  or both not, and that agree on those fields, give the same panel text. A last response
  that is not an object is printed as \<open>null\<close>, and an object is printed with no key
  other than those nine, so no other response field is ever exposed there.
\<close>

theorem renderTechnical_safe_fields_only:
  assumes "is_object r1 = is_object r2"
    and "\<forall>k\<in>set safe_fields. get_prop r1 k = get_prop r2 k"
  shows "renderTechnical b (st\<lparr>lastResponse := r1\<rparr>) = renderTechnical b (st\<lparr>lastResponse := r2\<rparr>)
       \<and> (if is_object r1
           then \<exists>kvs. safeLastResponse r1 = JObj kvs \<and> set (map fst kvs) \<subseteq> set safe_fields
           else safeLastResponse r1 = JNull)"
proof -
  have t: "is_object r \<Longrightarrow> truthy (Some r)" for r by (cases r) simp_all
  have m: "List.map_filter (\<lambda>k. map_option (Pair k) (get_prop r1 k)) safe_fields
      = List.map_filter (\<lambda>k. map_option (Pair k) (get_prop r2 k)) safe_fields"
    by (rule map_filter_agree) (simp add: assms(2))
  have "safeLastResponse r1 = safeLastResponse r2"
  proof (cases "is_object r1")
    case True
    with assms(1) have "is_object r2" by simp
    with True m t show ?thesis by (simp add: safeLastResponse_def)
  next
    case False
    with assms(1) have "\<not> is_object r2" by simp
    with False show ?thesis by (simp add: safeLastResponse_def)
  qed
  then have a: "renderTechnical b (st\<lparr>lastResponse := r1\<rparr>) = renderTechnical b (st\<lparr>lastResponse := r2\<rparr>)"
    by (simp add: renderTechnical_def technical_payload_def)
  have c: "if is_object r1
           then \<exists>kvs. safeLastResponse r1 = JObj kvs \<and> set (map fst kvs) \<subseteq> set safe_fields
           else safeLastResponse r1 = JNull"
  proof (cases "is_object r1")
    case True
    then obtain kvs where k: "safeLastResponse r1 = JObj kvs"
      using t by (simp add: safeLastResponse_def)
    with safeLastResponse_keys [OF k] True show ?thesis by simp
  next
    case False
    then show ?thesis by (simp add: safeLastResponse_def)
  qed
  from a c show ?thesis by simp
qed

theorem renderTechnical_safe_fields_only_witness:
  "is_object answer_with_trace = is_object answer_plain
   \<and> renderTechnical a_browser ((initial_state ''0.i'')\<lparr>lastResponse := answer_with_trace\<rparr>)
       = renderTechnical a_browser ((initial_state ''0.i'')\<lparr>lastResponse := answer_plain\<rparr>)
   \<and> safeLastResponse answer_with_trace
       = JObj [(''session_id'', JStr ''sess-i''), (''escalate'', JBool False)]
   \<and> renderTechnical a_browser ((initial_state ''0.i'')\<lparr>lastResponse := JNull\<rparr>)
       = renderTechnical a_browser ((initial_state ''0.i'')\<lparr>lastResponse := answer_bare_string\<rparr>)"
  using renderTechnical_safe_fields_only [of answer_with_trace answer_plain a_browser
      "initial_state ''0.i''"]
    renderTechnical_safe_fields_only [of JNull answer_bare_string a_browser
      "initial_state ''0.i''"]
  by (simp add: answer_with_trace_def answer_plain_def answer_bare_string_def safe_fields_def
      safeLastResponse_def List.map_filter_simps)

section \<open>Properties of voice transcription\<close>

text \<open>
  C10. When the audio blob is absent or smaller than 300 bytes, \<open>transcribeAndSend\<close>
  returns at once: it makes no request, and it shows the customer the note that asks to
  try again and speak a little longer.
\<close>

theorem transcribeAndSend_short_audio:
  assumes "blob = None \<or> (\<exists>bl. blob = Some bl \<and> blob_size bl < 300)"
  shows "snd (transcribeAndSend st blob) = False
       \<and> requests (fst (transcribeAndSend st blob)) = requests st
       \<and> transcript (fst (transcribeAndSend st blob))
           = transcript st
             @ [SystemNote ''I couldn't hear enough audio. Please try again and speak a little longer.'']
       \<and> voiceHint (fst (transcribeAndSend st blob)) = ''Try again and speak a little longer.''"
  using assms by (auto simp: transcribeAndSend_def addSystemNote_def)

theorem transcribeAndSend_short_audio_witness:
  "blob_size \<lparr>blob_size = 299\<rparr> < 300
   \<and> snd (transcribeAndSend (initial_state ''0.i'') (Some \<lparr>blob_size = 299\<rparr>)) = False
   \<and> requests (fst (transcribeAndSend (initial_state ''0.i'') (Some \<lparr>blob_size = 299\<rparr>))) = []
   \<and> transcript (fst (transcribeAndSend (initial_state ''0.i'') None))
       = [SystemNote ''I couldn't hear enough audio. Please try again and speak a little longer.'']"
  using transcribeAndSend_short_audio [of "Some \<lparr>blob_size = 299\<rparr>" "initial_state ''0.i''"]
        transcribeAndSend_short_audio [of None "initial_state ''0.i''"]
  by (simp add: initial_state_def)

lemma transcribe_long_audio_goes_on:
  "300 \<le> blob_size bl \<Longrightarrow> snd (transcribeAndSend st (Some bl)) = True"
  by (simp add: transcribeAndSend_def)

lemma transcribe_encoded_sends_request:
  "filter is_transcribe_request (requests (transcribe_encoded st mimeType (Inr audio)))
     = filter is_transcribe_request (requests st) @ [transcribe_request st audio mimeType]"
  by (simp add: transcribe_encoded_def transcribe_request_def)

section \<open>Properties of the orchestrator core as specified\<close>

lemma processTurn_keeps_delivered:
  assumes "store sid = Some s" and "map_of (delivered s) q = Some r"
  shows "\<exists>s'. fst (processTurn handler policy store sid' q' msg) sid = Some s'
              \<and> map_of (delivered s') q = Some r"
proof (cases "sid' = sid")
  case False
  with assms show ?thesis
    by (auto simp: processTurn_def Let_def split: option.splits)
next
  case True
  show ?thesis
  proof (cases "map_of (delivered s) q'")
    case (Some r')
    with assms True show ?thesis by (simp add: processTurn_def)
  next
    case None
    with assms(2) have "q' \<noteq> q" by auto
    with assms True None show ?thesis by (simp add: processTurn_def Let_def)
  qed
qed

lemma core_step_keeps_delivered:
  assumes "store sid = Some s" and "map_of (delivered s) q = Some r"
  shows "\<exists>s'. core_step handler policy store ev sid = Some s' \<and> map_of (delivered s') q = Some r"
proof (cases ev)
  case (Deliver sid' q' msg)
  have "\<exists>s'. fst (processTurn handler policy store sid' q' msg) sid = Some s'
              \<and> map_of (delivered s') q = Some r"
    by (rule processTurn_keeps_delivered) (rule assms)+
  with Deliver show ?thesis by simp
next
  case (Clear sid')
  with assms show ?thesis by (auto simp: clear_escalation_def split: option.splits)
qed

lemma core_run_keeps_delivered:
  assumes "store sid = Some s" and "map_of (delivered s) q = Some r"
  shows "\<exists>s'. core_run handler policy store evs sid = Some s' \<and> map_of (delivered s') q = Some r"
  using assms
proof (induction evs arbitrary: store s)
  case Nil
  then show ?case by (simp add: core_run_def)
next
  case (Cons ev evs)
  have "\<exists>s1. core_step handler policy store ev sid = Some s1
              \<and> map_of (delivered s1) q = Some r"
    by (rule core_step_keeps_delivered) (rule Cons.prems)+
  then obtain s1 where s1: "core_step handler policy store ev sid = Some s1"
    "map_of (delivered s1) q = Some r" by blast
  have "\<exists>s'. core_run handler policy (core_step handler policy store ev) evs sid = Some s'
              \<and> map_of (delivered s') q = Some r"
    by (rule Cons.IH) (rule s1)+
  then show ?case by (simp add: core_run_def)
qed

lemma processTurn_records:
  assumes "processTurn handler policy store sid q msg = (store1, r1)"
  shows "\<exists>s. store1 sid = Some s \<and> map_of (delivered s) q = Some r1"
proof -
  let ?s = "case store sid of None \<Rightarrow> new_session | Some s0 \<Rightarrow> s0"
  show ?thesis
  proof (cases "map_of (delivered ?s) q")
    case None
    with assms show ?thesis by (auto simp: processTurn_def Let_def)
  next
    case (Some r)
    with assms have e: "store1 = store" "r1 = r" by (simp_all add: processTurn_def)
    from Some have "store sid \<noteq> None"
      by (auto simp: new_session_def split: option.splits)
    with Some e show ?thesis by auto
  qed
qed

lemma processTurn_redelivered:
  assumes "store sid = Some s" and "map_of (delivered s) q = Some r"
  shows "processTurn handler policy store sid q msg = (store, r)"
  using assms by (simp add: processTurn_def)

text \<open>
  C6. In the core as the specification describes it, for every session and every store:
  once a turn (session id, turn sequence, text) has been delivered, delivering it again
  returns the response of the first delivery unchanged and leaves the store as it is, so
  no artifact or commitment is added. This holds whatever happened between the two
  deliveries (other turns of this and of other sessions, redeliveries, clears).
\<close>

theorem processTurn_redelivery_idempotent:
  assumes "processTurn handler policy store sid q text = (store1, r1)"
  shows "processTurn handler policy (core_run handler policy store1 evs) sid q text
           = (core_run handler policy store1 evs, r1)"
proof -
  from processTurn_records [OF assms]
  obtain s where s: "store1 sid = Some s" "map_of (delivered s) q = Some r1" by blast
  have "\<exists>s'. core_run handler policy store1 evs sid = Some s'
              \<and> map_of (delivered s') q = Some r1"
    by (rule core_run_keeps_delivered) (rule s)+
  then obtain s' where s': "core_run handler policy store1 evs sid = Some s'"
    "map_of (delivered s') q = Some r1" by blast
  show ?thesis by (rule processTurn_redelivered) (rule s')+
qed

theorem processTurn_redelivery_idempotent_witness:
  "processTurn sample_handler sample_policy
       (core_run sample_handler sample_policy (fst first_delivery) sample_events)
       ''s1'' 1 ''Where is my refund?''
     = (core_run sample_handler sample_policy (fst first_delivery) sample_events,
        snd first_delivery)
   \<and> processTurn sample_handler sample_policy (fst first_delivery) ''s1'' 1 ''Where is my refund?''
       = first_delivery
   \<and> artifacts (snd first_delivery) = [''refund_estimate'']"
proof -
  have p: "processTurn sample_handler sample_policy Map.empty ''s1'' 1 ''Where is my refund?''
             = (fst first_delivery, snd first_delivery)"
    by (simp add: first_delivery_def)
  have a: "artifacts (snd first_delivery) = [''refund_estimate'']"
    by (simp add: first_delivery_def processTurn_def new_session_def sample_handler_def
        sample_policy_def Let_def)
  from processTurn_redelivery_idempotent [OF p, of sample_events]
       processTurn_redelivery_idempotent [OF p, of "[]"] a
  show ?thesis by (simp add: core_run_def)
qed

text \<open>
  The artifacts of the session are the same before and after the redelivery: three turns
  and a redelivery of the first leave three artifacts.
\<close>

lemma redelivery_adds_no_artifact:
  "map_option produced
     (core_run sample_handler sample_policy (fst first_delivery)
        (sample_events @ [Deliver ''s1'' 1 ''Where is my refund?'']) ''s1'')
     = Some [''refund_estimate'', ''refund_estimate'', ''refund_estimate'']"
  by (simp add: first_delivery_def sample_events_def core_run_def processTurn_def new_session_def
      sample_handler_def sample_policy_def clear_escalation_def Let_def)








text \<open>
  Only the explicit clear lowers the flag: after it, a new turn that neither the handler
  nor the policy escalates is not escalated.
\<close>

lemma clear_escalation_lowers:
  "escalate (snd (processTurn sample_handler sample_policy
                    (clear_escalation (fst escalating_turn) ''s1'') ''s1'' 2 ''Thanks'')) = False"
  by (simp add: escalating_turn_def clear_escalation_def processTurn_def new_session_def
      sample_handler_def sample_policy_def Let_def)

end
